theory Spec2Isabelle
  imports Complex_Main
begin

section \<open>The fourth-order synchronous machine of PYPOWER-Dynamics\<close>

text \<open>
  This theory embeds the class \<open>sym_order4\<close> of \<open>pydyn/sym_order4.py\<close> (and the
  residual check of the older \<open>sym_order4.py\<close>) and settles the claims of the
  specification on it.

  Conventions of the embedding.
  \<^item> A Python \<open>float\<close> is a \<open>real\<close> and a Python \<open>complex\<close> is a \<open>complex\<close>:
    arithmetic is exact. Rounding error, infinities and NaN are outside the model.
  \<^item> The five dictionaries of the object are maps from their string keys; reading a
    key that is absent raises \<open>KeyError\<close>, indexing a list out of range raises
    \<open>IndexError\<close>.
  \<^item> Division by zero raises \<open>ZeroDivisionError\<close>, as Python's \<open>/\<close> does on
    \<open>float\<close> and \<open>complex\<close>. (Where an operand is a numpy scalar, numpy returns
    an infinity or NaN with a warning instead; every theorem below that promises a
    normal return assumes nonzero divisors, where both agree.)
  \<^item> A method is an action on the object: it takes the object and returns the outcome
    (an exception, or the returned value) together with the object as the method left
    it. An exception leaves the object as mutated up to the raising statement.
\<close>

subsection \<open>The object\<close>

datatype py_error = KeyError string | IndexError | ZeroDivisionError

record machine =
  signals :: "string \<rightharpoonup> real"
  states :: "string \<rightharpoonup> real"
  states0 :: "string \<rightharpoonup> real"
  dsteps :: "string \<rightharpoonup> real list"
  params :: "string \<rightharpoonup> real"
  opt :: string
  omega_n :: real
  Yg :: complex

type_synonym 'a action = "machine \<Rightarrow> (py_error + 'a) \<times> machine"

subsection \<open>Statements and expressions\<close>

definition py_return :: "'a \<Rightarrow> 'a action" where
  "py_return x = (\<lambda>self. (Inr x, self))"

definition py_raise :: "py_error \<Rightarrow> 'a action" where
  "py_raise e = (\<lambda>self. (Inl e, self))"

text \<open>\<open>py_bind f g\<close> runs \<open>f\<close>, then \<open>g\<close> on its value; an exception of \<open>f\<close> ends the run.\<close>

definition py_bind :: "'a action \<Rightarrow> ('a \<Rightarrow> 'b action) \<Rightarrow> 'b action" where
  "py_bind f g = (\<lambda>self. case f self of
      (Inl e, self') \<Rightarrow> (Inl e, self')
    | (Inr x, self') \<Rightarrow> g x self')"

definition py_then :: "unit action \<Rightarrow> 'b action \<Rightarrow> 'b action" where
  "py_then f g = py_bind f (\<lambda>_. g)"

text \<open>\<open>self.d[k]\<close> as an expression.\<close>

definition get_item :: "(machine \<Rightarrow> string \<rightharpoonup> 'a) \<Rightarrow> string \<Rightarrow> 'a action" where
  "get_item d k = (\<lambda>self. case d self k of
      None \<Rightarrow> (Inl (KeyError k), self)
    | Some v \<Rightarrow> (Inr v, self))"

text \<open>\<open>xs[i]\<close> for a literal index \<open>i \<ge> 0\<close>.\<close>

definition get_index :: "real list \<Rightarrow> nat \<Rightarrow> real action" where
  "get_index xs i = (if i < length xs then py_return (xs ! i) else py_raise IndexError)"

text \<open>\<open>a / b\<close> on floats.\<close>

definition divide_float :: "real \<Rightarrow> real \<Rightarrow> real action" where
  "divide_float a b = (if b = 0 then py_raise ZeroDivisionError else py_return (a / b))"

text \<open>\<open>a / b\<close> for a complex \<open>a\<close>.\<close>

definition divide_complex :: "complex \<Rightarrow> complex \<Rightarrow> complex action" where
  "divide_complex a b = (if b = 0 then py_raise ZeroDivisionError else py_return (a / b))"

text \<open>The assignments \<open>self.states[k] = v\<close>, \<open>self.states0[k] = v\<close>,
  \<open>self.signals[k] = v\<close> and \<open>self.dsteps[k] = xs\<close>.\<close>

definition set_state :: "string \<Rightarrow> real \<Rightarrow> unit action" where
  "set_state k v = (\<lambda>self. (Inr (), self\<lparr>states := (states self)(k \<mapsto> v)\<rparr>))"

definition set_state0 :: "string \<Rightarrow> real \<Rightarrow> unit action" where
  "set_state0 k v = (\<lambda>self. (Inr (), self\<lparr>states0 := (states0 self)(k \<mapsto> v)\<rparr>))"

definition set_signal :: "string \<Rightarrow> real \<Rightarrow> unit action" where
  "set_signal k v = (\<lambda>self. (Inr (), self\<lparr>signals := (signals self)(k \<mapsto> v)\<rparr>))"

definition set_dsteps :: "string \<Rightarrow> real list \<Rightarrow> unit action" where
  "set_dsteps k xs = (\<lambda>self. (Inr (), self\<lparr>dsteps := (dsteps self)(k \<mapsto> xs)\<rparr>))"

text \<open>\<open>self.dsteps[k].append(v)\<close>: the list stored under \<open>k\<close> grows in place.\<close>

definition append_dsteps :: "string \<Rightarrow> real \<Rightarrow> unit action" where
  "append_dsteps k v = py_bind (get_item dsteps k) (\<lambda>xs. set_dsteps k (xs @ [v]))"

text \<open>\<open>self.dsteps[k][i]\<close>.\<close>

definition get_dstep :: "string \<Rightarrow> nat \<Rightarrow> real action" where
  "get_dstep k i = py_bind (get_item dsteps k) (\<lambda>xs. get_index xs i)"

subsection \<open>\<open>solve_step\<close>\<close>

text \<open>
  Lines 186 to 208 of \<open>pydyn/sym_order4.py\<close>: the four states as they are at the start
  of the call, and the four increments \<open>k = h * f\<close>. Nothing is written here.
\<close>

record increments =
  omega_0 :: real
  delta_0 :: real
  Eqp_0 :: real
  Edp_0 :: real
  k_Eqp :: real
  k_Edp :: real
  k_omega :: real
  k_delta :: real

definition calc_increments :: "real \<Rightarrow> increments action" where
  "calc_increments h =
    py_bind (get_item states ''omega'') (\<lambda>omega_0.
    py_bind (get_item states ''delta'') (\<lambda>delta_0.
    py_bind (get_item states ''Eqp'') (\<lambda>Eqp_0.
    py_bind (get_item states ''Edp'') (\<lambda>Edp_0.
    py_bind (get_item params ''Xd'') (\<lambda>Xd.
    py_bind (get_item params ''Xdp'') (\<lambda>Xdp.
    py_bind (get_item params ''Td0p'') (\<lambda>Td0p.
    py_bind (get_item signals ''Vfd'') (\<lambda>Vfd.
    py_bind (get_item signals ''Id'') (\<lambda>Id.
    py_bind (divide_float (Vfd - (Xd - Xdp) * Id - Eqp_0) Td0p) (\<lambda>f1.
    py_bind (get_item params ''Xq'') (\<lambda>Xq.
    py_bind (get_item params ''Xqp'') (\<lambda>Xqp.
    py_bind (get_item params ''Tq0p'') (\<lambda>Tq0p.
    py_bind (get_item signals ''Iq'') (\<lambda>Iq.
    py_bind (divide_float ((Xq - Xqp) * Iq - Edp_0) Tq0p) (\<lambda>f2.
    py_bind (get_item params ''H'') (\<lambda>H.
    py_bind (divide_float 1 (2 * H)) (\<lambda>r.
    py_bind (get_item signals ''Pm'') (\<lambda>Pm.
    py_bind (get_item signals ''P'') (\<lambda>P.
    py_bind (\<lambda>self. (Inr (omega_n self), self)) (\<lambda>omega_n.
    py_return \<lparr>omega_0 = omega_0, delta_0 = delta_0, Eqp_0 = Eqp_0, Edp_0 = Edp_0,
      k_Eqp = h * f1, k_Edp = h * f2, k_omega = h * (r * (Pm - P)),
      k_delta = h * (omega_n * (omega_0 - 1))\<rparr>))))))))))))))))))))"

text \<open>
  The statements of the branches. The source writes each of them out four times, for
  \<open>Eqp\<close>, \<open>Edp\<close>, \<open>omega\<close> and \<open>delta\<close> in this order; here the name \<open>v\<close> of
  the variable is an argument.

  \<open>self.states[v] = x; self.dsteps[v] = [k]\<close>
\<close>

definition assign_reset :: "string \<Rightarrow> real \<Rightarrow> real \<Rightarrow> unit action" where
  "assign_reset v x k = py_then (set_state v x) (set_dsteps v [k])"

text \<open>\<open>self.states[v] = x; self.dsteps[v].append(k)\<close>\<close>

definition assign_append :: "string \<Rightarrow> real \<Rightarrow> real \<Rightarrow> unit action" where
  "assign_append v x k = py_then (set_state v x) (append_dsteps v k)"

text \<open>\<open>self.states[v] = x_0 + 0.5 * (k - self.dsteps[v][0])\<close>\<close>

definition correct :: "string \<Rightarrow> real \<Rightarrow> real \<Rightarrow> unit action" where
  "correct v x_0 k = py_bind (get_dstep v 0) (\<lambda>k0. set_state v (x_0 + 0.5 * (k - k0)))"

text \<open>\<open>self.states[v] = self.states0[v] + 1/6 * (self.dsteps[v][0] + 2*self.dsteps[v][1]
  + 2*self.dsteps[v][2] + k)\<close>\<close>

definition combine :: "string \<Rightarrow> real \<Rightarrow> unit action" where
  "combine v k =
    py_bind (get_item states0 v) (\<lambda>x0.
    py_bind (get_dstep v 0) (\<lambda>d0.
    py_bind (get_dstep v 1) (\<lambda>d1.
    py_bind (get_dstep v 2) (\<lambda>d2.
    set_state v (x0 + 1/6 * (d0 + 2 * d1 + 2 * d2 + k))))))"

text \<open>The branch \<open>self.opt == 'mod_euler'\<close>, lines 211 to 228.\<close>

definition mod_euler :: "int \<Rightarrow> increments \<Rightarrow> unit action" where
  "mod_euler dstep i =
    (if dstep = 0 then
       py_then (assign_reset ''Eqp'' (Eqp_0 i + k_Eqp i) (k_Eqp i))
      (py_then (assign_reset ''Edp'' (Edp_0 i + k_Edp i) (k_Edp i))
      (py_then (assign_reset ''omega'' (omega_0 i + k_omega i) (k_omega i))
               (assign_reset ''delta'' (delta_0 i + k_delta i) (k_delta i))))
     else
       py_then (correct ''Eqp'' (Eqp_0 i) (k_Eqp i))
      (py_then (correct ''Edp'' (Edp_0 i) (k_Edp i))
      (py_then (correct ''omega'' (omega_0 i) (k_omega i))
               (correct ''delta'' (delta_0 i) (k_delta i)))))"

text \<open>The branch \<open>self.opt == 'runge_kutta'\<close>, lines 231 to 270. There is no \<open>else\<close>
  after \<open>dstep == 3\<close>.\<close>

definition runge_kutta :: "int \<Rightarrow> increments \<Rightarrow> unit action" where
  "runge_kutta dstep i =
    (if dstep = 0 then
       py_then (set_state0 ''omega'' (omega_0 i))
      (py_then (set_state0 ''delta'' (delta_0 i))
      (py_then (set_state0 ''Eqp'' (Eqp_0 i))
      (py_then (set_state0 ''Edp'' (Edp_0 i))
      (py_then (assign_reset ''Eqp'' (Eqp_0 i + 0.5 * k_Eqp i) (k_Eqp i))
      (py_then (assign_reset ''Edp'' (Edp_0 i + 0.5 * k_Edp i) (k_Edp i))
      (py_then (assign_reset ''omega'' (omega_0 i + 0.5 * k_omega i) (k_omega i))
               (assign_reset ''delta'' (delta_0 i + 0.5 * k_delta i) (k_delta i))))))))
     else if dstep = 1 then
       py_then (assign_append ''Eqp'' (Eqp_0 i + 0.5 * k_Eqp i) (k_Eqp i))
      (py_then (assign_append ''Edp'' (Edp_0 i + 0.5 * k_Edp i) (k_Edp i))
      (py_then (assign_append ''omega'' (omega_0 i + 0.5 * k_omega i) (k_omega i))
               (assign_append ''delta'' (delta_0 i + 0.5 * k_delta i) (k_delta i))))
     else if dstep = 2 then
       py_then (assign_append ''Eqp'' (Eqp_0 i + k_Eqp i) (k_Eqp i))
      (py_then (assign_append ''Edp'' (Edp_0 i + k_Edp i) (k_Edp i))
      (py_then (assign_append ''omega'' (omega_0 i + k_omega i) (k_omega i))
               (assign_append ''delta'' (delta_0 i + k_delta i) (k_delta i))))
     else if dstep = 3 then
       py_then (combine ''Eqp'' (k_Eqp i))
      (py_then (combine ''Edp'' (k_Edp i))
      (py_then (combine ''omega'' (k_omega i))
               (combine ''delta'' (k_delta i))))
     else py_return ())"

definition solve_step :: "real \<Rightarrow> int \<Rightarrow> unit action" where
  "solve_step h dstep =
    py_bind (calc_increments h) (\<lambda>i.
    py_bind (\<lambda>self. (Inr (opt self), self)) (\<lambda>opt.
      if opt = ''mod_euler'' then mod_euler dstep i
      else if opt = ''runge_kutta'' then runge_kutta dstep i
      else py_return ()))"

subsection \<open>\<open>calc_currents\<close>\<close>

text \<open>
  \<open>np.abs\<close>, \<open>np.angle\<close>, \<open>np.sin\<close>, \<open>np.cos\<close>, \<open>np.exp\<close> and \<open>np.sqrt\<close> are
  \<open>cmod\<close>, \<open>Arg\<close> (the angle in \<open>(-\<pi>, \<pi>]\<close>, and 0 at 0), \<open>sin\<close>, \<open>cos\<close>, \<open>exp\<close>
  and \<open>sqrt\<close>. A key that the source reads several times is read once here, at its
  first occurrence; nothing is written before the last read.
\<close>

definition calc_currents :: "complex \<Rightarrow> complex action" where
  "calc_currents vt =
    py_bind (get_item states ''delta'') (\<lambda>delta.
    let Vd = cmod vt * sin (delta - Arg vt);
        Vq = cmod vt * cos (delta - Arg vt) in
    py_bind (get_item params ''Ra'') (\<lambda>Ra.
    py_bind
      (if Ra > 0 then
         py_bind (get_item states ''Eqp'') (\<lambda>Eqp.
         py_bind (get_item params ''Xdp'') (\<lambda>Xdp.
         py_bind (get_item states ''Edp'') (\<lambda>Edp.
         py_bind (get_item params ''Xqp'') (\<lambda>Xqp.
         py_bind (divide_float (- Ra * (Vq - Eqp) + Xdp * (Vd - Edp)) (Xdp * Xqp + Ra\<^sup>2)) (\<lambda>Iq.
         py_bind (divide_float (- (Vd - Edp - Xqp * Iq)) Ra) (\<lambda>Id.
         py_return (Id, Iq)))))))
       else
         py_bind (get_item states ''Eqp'') (\<lambda>Eqp.
         py_bind (get_item params ''Xdp'') (\<lambda>Xdp.
         py_bind (divide_float (Eqp - Vq) Xdp) (\<lambda>Id.
         py_bind (get_item states ''Edp'') (\<lambda>Edp.
         py_bind (get_item params ''Xqp'') (\<lambda>Xqp.
         py_bind (divide_float (Vd - Edp) Xqp) (\<lambda>Iq.
         py_return (Id, Iq))))))))
      (\<lambda>(Id, Iq).
    let p = (Vd + Ra * Id) * Id + (Vq + Ra * Iq) * Iq;
        q = Vq * Id - Vd * Iq;
        In = (complex_of_real Iq - \<i> * complex_of_real Id) * exp (\<i> * complex_of_real delta) in
    py_bind (\<lambda>self. (Inr (Yg self), self)) (\<lambda>Yg.
    let Im = In + Yg * vt in
    py_then (set_signal ''Id'' Id)
   (py_then (set_signal ''Iq'' Iq)
   (py_then (set_signal ''Vd'' Vd)
   (py_then (set_signal ''Vq'' Vq)
   (py_then (set_signal ''P'' p)
   (py_then (set_signal ''Q'' q)
   (py_then (set_signal ''Vt'' (sqrt (Vd\<^sup>2 + Vq\<^sup>2)))
   (py_return Im)))))))))))"

subsection \<open>\<open>check_diffs\<close>\<close>

text \<open>
  What \<open>print\<close> writes is the value of the action: the list of the lines printed, a
  line being its pieces in order. \<open>str(x)\<close> of a float \<open>x\<close> is the piece \<open>Float x\<close>.
\<close>

datatype piece = Text string | Float real

type_synonym line = "piece list"

text \<open>
  \<open>round(x, n)\<close> of Python: the multiple of \<open>10 ^ -n\<close> nearest to \<open>x\<close>, the even one
  of the two when \<open>x\<close> is halfway.
\<close>

definition round_half_even :: "real \<Rightarrow> int" where
  "round_half_even x =
    (let f = \<lfloor>x\<rfloor>; d = x - of_int f in
     if d < 1/2 then f else if d > 1/2 then f + 1 else if even f then f else f + 1)"

definition py_round :: "real \<Rightarrow> nat \<Rightarrow> real" where
  "py_round x n = of_int (round_half_even (x * 10 ^ n)) / 10 ^ n"

text \<open>Lines 159 to 175 of \<open>pydyn/sym_order4.py\<close>, the same as lines 104 to 120 of
  the older \<open>sym_order4.py\<close>: the pair \<open>(dEqp, dEdp)\<close>.\<close>

definition residuals :: "(real \<times> real) action" where
  "residuals =
    py_bind (get_item states ''Eqp'') (\<lambda>Eqp_0.
    py_bind (get_item states ''Edp'') (\<lambda>Edp_0.
    py_bind (get_item signals ''Vfd'') (\<lambda>Vfd.
    py_bind (get_item signals ''Id'') (\<lambda>Id.
    py_bind (get_item signals ''Iq'') (\<lambda>Iq.
    py_bind (get_item params ''Xd'') (\<lambda>Xd.
    py_bind (get_item params ''Xdp'') (\<lambda>Xdp.
    py_bind (get_item params ''Td0p'') (\<lambda>Td0p.
    py_bind (get_item params ''Xq'') (\<lambda>Xq.
    py_bind (get_item params ''Xqp'') (\<lambda>Xqp.
    py_bind (get_item params ''Tq0p'') (\<lambda>Tq0p.
    py_bind (divide_float (Vfd - (Xd - Xdp) * Id - Eqp_0) Td0p) (\<lambda>dEqp.
    py_bind (divide_float ((Xq - Xqp) * Iq - Edp_0) Tq0p) (\<lambda>dEdp.
    py_return (dEqp, dEdp))))))))))))))"

definition check_diffs :: "line list action" where
  "check_diffs =
    py_bind residuals (\<lambda>(dEqp, dEdp).
      if py_round dEdp 6 \<noteq> 0 \<or> py_round dEqp 6 \<noteq> 0 then
        py_return
          [[Text ''Warning: differential equations not zero on initialisation...''],
           [Text ''dEdp = '', Float dEdp, Text '', dEqp = '', Float dEqp]]
      else py_return [])"

text \<open>\<open>check_diffs\<close> of the older \<open>sym_order4.py\<close>.\<close>

definition check_diffs_2014 :: "line list action" where
  "check_diffs_2014 =
    py_bind residuals (\<lambda>(dEqp, dEdp).
      if dEdp \<noteq> 0 \<or> dEqp \<noteq> 0 then
        py_return [[Text ''Differential equations not zero on initialisation...'']]
      else py_return [])"

subsection \<open>The constructor and \<open>initialise\<close>\<close>

text \<open>
  \<open>__init__\<close>: the parser reads the machine file into \<open>self.params\<close> (and the two
  identity fields, which no method reads). The parsed dictionary \<open>ps\<close> is the argument
  here. The object exists only if the computation of \<open>Yg\<close> raises nothing.
\<close>

definition sym_order4 :: "(string \<rightharpoonup> real) \<Rightarrow> string \<Rightarrow> py_error + machine" where
  "sym_order4 ps iopt =
    (case ps ''Ra'' of None \<Rightarrow> Inl (KeyError ''Ra'') | Some Ra \<Rightarrow>
    (case ps ''Xdp'' of None \<Rightarrow> Inl (KeyError ''Xdp'') | Some Xdp \<Rightarrow>
    (case ps ''Xqp'' of None \<Rightarrow> Inl (KeyError ''Xqp'') | Some Xqp \<Rightarrow>
    (if Ra\<^sup>2 + Xdp * Xqp = 0 then Inl ZeroDivisionError
     else Inr \<lparr>signals = Map.empty, states = Map.empty, states0 = Map.empty,
                dsteps = Map.empty, params = ps, opt = iopt, omega_n = 2 * pi * 50,
                Yg = (complex_of_real Ra - \<i> * 0.5 * complex_of_real (Xdp + Xqp))
                       / complex_of_real (Ra\<^sup>2 + Xdp * Xqp)\<rparr>))))"

definition initialise :: "complex \<Rightarrow> complex \<Rightarrow> line list action" where
  "initialise vt0 S0 =
    py_bind (divide_complex S0 vt0) (\<lambda>S0_vt0.
    let Ia0 = cnj S0_vt0;
        phi0 = Arg Ia0 in
    py_bind (get_item params ''Ra'') (\<lambda>Ra.
    py_bind (get_item params ''Xq'') (\<lambda>Xq.
    let Eq0 = vt0 + Complex Ra Xq * Ia0;
        delta0 = Arg Eq0;
        Id0 = cmod Ia0 * sin (delta0 - phi0);
        Iq0 = cmod Ia0 * cos (delta0 - phi0);
        Vd0 = cmod vt0 * sin (delta0 - Arg vt0);
        Vq0 = cmod vt0 * cos (delta0 - Arg vt0) in
    py_bind (get_item params ''Xdp'') (\<lambda>Xdp.
    py_bind (get_item params ''Xqp'') (\<lambda>Xqp.
    py_bind (get_item params ''Xd'') (\<lambda>Xd.
    let Eqp0 = Vq0 + Ra * Iq0 + Xdp * Id0;
        Edp0 = Vd0 + Ra * Id0 - Xqp * Iq0;
        Vfd0 = \<bar>Eqp0\<bar> + (Xd - Xdp) * Id0;
        p0 = (Vd0 + Ra * Id0) * Id0 + (Vq0 + Ra * Iq0) * Iq0;
        q0 = Vq0 * Id0 - Vd0 * Iq0 in
    py_then (set_signal ''Vfd'' Vfd0)
   (py_then (set_signal ''Id'' Id0)
   (py_then (set_signal ''Iq'' Iq0)
   (py_then (set_signal ''Vd'' Vd0)
   (py_then (set_signal ''Vq'' Vq0)
   (py_then (set_signal ''Vt'' (cmod vt0))
   (py_then (set_signal ''P'' p0)
   (py_then (set_signal ''Q'' q0)
   (py_then (set_signal ''Pm'' p0)
   (py_then (set_state ''omega'' 1)
   (py_then (set_state ''delta'' delta0)
   (py_then (set_state ''Eqp'' Eqp0)
   (py_then (set_state ''Edp'' Edp0)
    check_diffs))))))))))))))))))"

text \<open>A call of one of the four methods, and the object after a list of calls, whatever
  each call returned or raised.\<close>

datatype call =
  Initialise complex complex
| Calc_currents complex
| Check_diffs
| Solve_step real int

fun after_call :: "call \<Rightarrow> machine \<Rightarrow> machine" where
  "after_call (Initialise vt0 S0) self = snd (initialise vt0 S0 self)"
| "after_call (Calc_currents vt) self = snd (calc_currents vt self)"
| "after_call Check_diffs self = snd (check_diffs self)"
| "after_call (Solve_step h dstep) self = snd (solve_step h dstep self)"

definition after_calls :: "call list \<Rightarrow> machine \<Rightarrow> machine" where
  "after_calls cs self = fold after_call cs self"

subsection \<open>The vocabulary of the specification\<close>

text \<open>The four state variables, in the order in which every branch writes them.\<close>

definition variables :: "string list" where
  "variables = [''Eqp'', ''Edp'', ''omega'', ''delta'']"

text \<open>The value stored under a key that is present.\<close>

definition val :: "(string \<rightharpoonup> 'a) \<Rightarrow> string \<Rightarrow> 'a" where
  "val d k = the (d k)"

text \<open>
  The right-hand sides of the four differential equations as section 4.4 of the
  specification gives them: \<open>f(Eqp) = (Vfd - (Xd - Xdp) Id - Eqp) / Td0p\<close>,
  \<open>f(Edp) = ((Xq - Xqp) Iq - Edp) / Tq0p\<close>, \<open>f(omega) = (Pm - P) / (2 H)\<close> and
  \<open>f(delta) = omega_n (omega - 1)\<close>, read on the object as it is.
\<close>

definition rhs :: "machine \<Rightarrow> string \<Rightarrow> real" where
  "rhs m v =
    (if v = ''Eqp'' then
       (val (signals m) ''Vfd'' - (val (params m) ''Xd'' - val (params m) ''Xdp'') * val (signals m) ''Id''
          - val (states m) ''Eqp'') / val (params m) ''Td0p''
     else if v = ''Edp'' then
       ((val (params m) ''Xq'' - val (params m) ''Xqp'') * val (signals m) ''Iq''
          - val (states m) ''Edp'') / val (params m) ''Tq0p''
     else if v = ''omega'' then
       (val (signals m) ''Pm'' - val (signals m) ''P'') / (2 * val (params m) ''H'')
     else omega_n m * (val (states m) ''omega'' - 1))"

text \<open>
  What \<open>check_diffs\<close> needs to evaluate the two electrical right-hand sides: the
  entries it reads are present and the divisors \<open>Td0p\<close> and \<open>Tq0p\<close> are not zero.
\<close>

definition residuals_ready :: "machine \<Rightarrow> bool" where
  "residuals_ready m \<longleftrightarrow>
     {''Eqp'', ''Edp''} \<subseteq> dom (states m) \<and>
     {''Vfd'', ''Id'', ''Iq''} \<subseteq> dom (signals m) \<and>
     {''Xd'', ''Xdp'', ''Td0p'', ''Xq'', ''Xqp'', ''Tq0p''} \<subseteq> dom (params m) \<and>
     val (params m) ''Td0p'' \<noteq> 0 \<and> val (params m) ''Tq0p'' \<noteq> 0"

text \<open>What \<open>solve_step\<close> needs to evaluate all four: the same, and the entries of the
  swing equation with a divisor \<open>H\<close> that is not zero.\<close>

definition ready :: "machine \<Rightarrow> bool" where
  "ready m \<longleftrightarrow>
     residuals_ready m \<and>
     {''omega'', ''delta''} \<subseteq> dom (states m) \<and>
     {''Pm'', ''P''} \<subseteq> dom (signals m) \<and>
     ''H'' \<in> dom (params m) \<and> val (params m) ''H'' \<noteq> 0"

text \<open>\<open>unchanged field f\<close>: the action \<open>f\<close> leaves \<open>field\<close> of the object as it was,
  whether it returns or raises.\<close>

definition unchanged :: "(machine \<Rightarrow> 'b) \<Rightarrow> 'a action \<Rightarrow> bool" where
  "unchanged field f = (\<forall>self. field (snd (f self)) = field self)"

subsection \<open>An example machine\<close>

text \<open>The parameters of the end-to-end scenario of section 8 of the specification.\<close>

definition example_params :: "string \<rightharpoonup> real" where
  "example_params =
    [''Ra'' \<mapsto> 0, ''Xd'' \<mapsto> 2.1, ''Xq'' \<mapsto> 2, ''Xdp'' \<mapsto> 0.3, ''Xqp'' \<mapsto> 0.5,
     ''Td0p'' \<mapsto> 7, ''Tq0p'' \<mapsto> 0.75, ''H'' \<mapsto> 3]"

text \<open>
  A machine off its equilibrium: the field voltage, the quadrature current and the
  mechanical power are such that \<open>f(Eqp) = 1/7\<close>, \<open>f(Edp) = 2/5\<close> and
  \<open>f(omega) = 1/10\<close>. \<open>Yg\<close> is the value that the constructor computes from
  \<open>example_params\<close>.
\<close>

definition example :: "string \<Rightarrow> machine" where
  "example iopt =
    \<lparr>signals = [''Vfd'' \<mapsto> 2, ''Id'' \<mapsto> 0, ''Iq'' \<mapsto> 1/5, ''Vd'' \<mapsto> 0, ''Vq'' \<mapsto> 1,
                ''Vt'' \<mapsto> 1, ''P'' \<mapsto> 0, ''Q'' \<mapsto> 0, ''Pm'' \<mapsto> 3/5],
     states = [''omega'' \<mapsto> 1, ''delta'' \<mapsto> 0, ''Eqp'' \<mapsto> 1, ''Edp'' \<mapsto> 0],
     states0 = Map.empty, dsteps = Map.empty, params = example_params, opt = iopt,
     omega_n = 2 * pi * 50, Yg = - \<i> * (8 / 3)\<rparr>"

text \<open>The same machine with an armature resistance of 0.1.\<close>

definition example_Ra :: machine where
  "example_Ra = (example ''runge_kutta'')\<lparr>params := example_params(''Ra'' \<mapsto> 1/10)\<rparr>"

text \<open>The same machine with residuals of \<open>10 ^ -7\<close> and 0.\<close>

definition example_quiet :: machine where
  "example_quiet = (example ''runge_kutta'')
     \<lparr>signals := (signals (example ''runge_kutta''))(''Vfd'' \<mapsto> 1 + 7 / 10 ^ 7, ''Iq'' \<mapsto> 0)\<rparr>"

text \<open>The object that the constructor returns for \<open>example_params\<close> and
  \<open>'runge_kutta'\<close>.\<close>

definition example_new :: machine where
  "example_new =
    \<lparr>signals = Map.empty, states = Map.empty, states0 = Map.empty, dsteps = Map.empty,
     params = example_params, opt = ''runge_kutta'', omega_n = 2 * pi * 50,
     Yg = - \<i> * (8 / 3)\<rparr>"

text \<open>The example after the stages 0, 0 and 1, 0 to 2, and 0 to 3 of a Runge-Kutta
  step of size 0.07, the signals staying as they are.\<close>

definition example_rk1 :: machine where
  "example_rk1 = snd (solve_step (7/100) 0 (example ''runge_kutta''))"

definition example_rk2 :: machine where
  "example_rk2 = snd (solve_step (7/100) 1 example_rk1)"

definition example_rk3 :: machine where
  "example_rk3 = snd (solve_step (7/100) 2 example_rk2)"

definition example_rk4 :: machine where
  "example_rk4 = snd (solve_step (7/100) 3 example_rk3)"

text \<open>The example after the predictor stage of a modified Euler step of size 0.07.\<close>

definition example_me1 :: machine where
  "example_me1 = snd (solve_step (7/100) 0 (example ''mod_euler''))"

section \<open>Running the statements\<close>

lemmas run_defs = solve_step_def calc_increments_def runge_kutta_def mod_euler_def
  assign_reset_def assign_append_def append_dsteps_def correct_def combine_def
  get_dstep_def get_index_def get_item_def divide_float_def
  set_state_def set_state0_def set_dsteps_def set_signal_def
  py_bind_def py_then_def py_return_def py_raise_def

lemma py_bind_Inr: "f self = (Inr x, self') \<Longrightarrow> py_bind f g self = g x self'"
  by (simp add: py_bind_def)

lemma py_then_Inr: "f self = (Inr (), self') \<Longrightarrow> py_then f g self = g self'"
  by (simp add: py_then_def py_bind_def)

lemma get_item_val: "k \<in> dom (d self) \<Longrightarrow> get_item d k self = (Inr (val (d self) k), self)"
  by (auto simp: get_item_def val_def)

lemma divide_float_ok: "b \<noteq> 0 \<Longrightarrow> divide_float a b self = (Inr (a / b), self)"
  by (simp add: divide_float_def py_return_def)

subsection \<open>What an action leaves as it was\<close>

lemma unchanged_bind:
  "unchanged fld f \<Longrightarrow> (\<And>x. unchanged fld (g x)) \<Longrightarrow> unchanged fld (py_bind f g)"
  by (auto simp: unchanged_def py_bind_def split: prod.splits sum.splits) (metis snd_conv)+

lemma unchanged_then:
  "unchanged fld f \<Longrightarrow> unchanged fld g \<Longrightarrow> unchanged fld (py_then f g)"
  by (simp add: py_then_def unchanged_bind)

lemma unchanged_read:
  "unchanged fld (py_return x)" "unchanged fld (py_raise e)" "unchanged fld (get_item d k)"
  "unchanged fld (\<lambda>self. (Inr (r self), self))"
  "unchanged fld (divide_float a b)" "unchanged fld (divide_complex c z)"
  "unchanged fld (get_index xs i)"
  by (auto simp: unchanged_def py_return_def py_raise_def get_item_def divide_float_def
      divide_complex_def get_index_def split: option.splits)

lemma unchanged_get_dstep: "unchanged fld (get_dstep v i)"
  by (simp add: get_dstep_def unchanged_bind unchanged_read)

lemma unchanged_if:
  "unchanged fld f \<Longrightarrow> unchanged fld g \<Longrightarrow> unchanged fld (if b then f else g)"
  by simp

lemma unchanged_case_prod:
  "(\<And>a b. unchanged fld (f a b)) \<Longrightarrow> unchanged fld (case p of (a, b) \<Rightarrow> f a b)"
  by (cases p) simp

lemma unchanged_write:
  "(\<And>self. fld (self\<lparr>states := (states self)(k \<mapsto> v)\<rparr>) = fld self) \<Longrightarrow> unchanged fld (set_state k v)"
  "(\<And>self. fld (self\<lparr>states0 := (states0 self)(k \<mapsto> v)\<rparr>) = fld self) \<Longrightarrow> unchanged fld (set_state0 k v)"
  "(\<And>self. fld (self\<lparr>dsteps := (dsteps self)(k \<mapsto> xs)\<rparr>) = fld self) \<Longrightarrow> unchanged fld (set_dsteps k xs)"
  "(\<And>self. fld (self\<lparr>signals := (signals self)(k \<mapsto> v)\<rparr>) = fld self) \<Longrightarrow> unchanged fld (set_signal k v)"
  by (simp_all add: unchanged_def set_state_def set_state0_def set_dsteps_def set_signal_def)

lemma unchanged_calc_increments: "unchanged fld (calc_increments h)"
  unfolding calc_increments_def
  by (intro unchanged_bind unchanged_read)

lemma calc_increments_pure: "snd (calc_increments h self) = self"
  using unchanged_calc_increments [of "\<lambda>m. m" h] by (simp add: unchanged_def)

text \<open>\<open>solve_step\<close> assigns to \<open>states\<close>, \<open>states0\<close> and \<open>dsteps\<close>, under the four
  variable names, and to nothing else.\<close>

lemma unchanged_solve_step:
  assumes "\<And>self k v. k \<in> set variables \<Longrightarrow> fld (self\<lparr>states := (states self)(k \<mapsto> v)\<rparr>) = fld self"
    and "\<And>self k v. k \<in> set variables \<Longrightarrow> fld (self\<lparr>states0 := (states0 self)(k \<mapsto> v)\<rparr>) = fld self"
    and "\<And>self k xs. k \<in> set variables \<Longrightarrow> fld (self\<lparr>dsteps := (dsteps self)(k \<mapsto> xs)\<rparr>) = fld self"
  shows "unchanged fld (solve_step h dstep)"
  unfolding solve_step_def mod_euler_def runge_kutta_def assign_reset_def assign_append_def
    append_dsteps_def correct_def combine_def
  by (intro unchanged_bind unchanged_then unchanged_if unchanged_read unchanged_get_dstep
      unchanged_calc_increments unchanged_write assms; simp add: variables_def)

text \<open>\<open>calc_currents\<close> assigns to \<open>signals\<close> only.\<close>

lemma unchanged_calc_currents:
  assumes "\<And>self k v. fld (self\<lparr>signals := (signals self)(k \<mapsto> v)\<rparr>) = fld self"
  shows "unchanged fld (calc_currents vt)"
  unfolding calc_currents_def Let_def
  by (intro unchanged_bind unchanged_then unchanged_if unchanged_read unchanged_case_prod
      unchanged_write assms)

lemma unchanged_residuals: "unchanged fld residuals"
  unfolding residuals_def
  by (intro unchanged_bind unchanged_read)

lemma unchanged_check_diffs: "unchanged fld check_diffs"
  unfolding check_diffs_def
  by (intro unchanged_bind unchanged_residuals unchanged_case_prod unchanged_if unchanged_read)

lemma unchanged_check_diffs_2014: "unchanged fld check_diffs_2014"
  unfolding check_diffs_2014_def
  by (intro unchanged_bind unchanged_residuals unchanged_case_prod unchanged_if unchanged_read)

text \<open>\<open>initialise\<close> assigns to \<open>signals\<close> and \<open>states\<close> only.\<close>

lemma unchanged_initialise:
  assumes "\<And>self k v. fld (self\<lparr>signals := (signals self)(k \<mapsto> v)\<rparr>) = fld self"
    and "\<And>self k v. fld (self\<lparr>states := (states self)(k \<mapsto> v)\<rparr>) = fld self"
  shows "unchanged fld (initialise vt0 S0)"
  unfolding initialise_def Let_def
  by (intro unchanged_bind unchanged_then unchanged_read unchanged_write unchanged_check_diffs assms)

lemma after_call_fixed:
  "Yg (after_call c m) = Yg m \<and> params (after_call c m) = params m \<and>
   opt (after_call c m) = opt m \<and> omega_n (after_call c m) = omega_n m"
proof (cases c)
  case (Initialise vt0 S0)
  show ?thesis
    using unchanged_initialise [of Yg vt0 S0] unchanged_initialise [of params vt0 S0]
      unchanged_initialise [of opt vt0 S0] unchanged_initialise [of omega_n vt0 S0]
    by (simp add: Initialise unchanged_def)
next
  case (Calc_currents vt)
  show ?thesis
    using unchanged_calc_currents [of Yg vt] unchanged_calc_currents [of params vt]
      unchanged_calc_currents [of opt vt] unchanged_calc_currents [of omega_n vt]
    by (simp add: Calc_currents unchanged_def)
next
  case Check_diffs
  show ?thesis
    using unchanged_check_diffs [of Yg] unchanged_check_diffs [of params]
      unchanged_check_diffs [of opt] unchanged_check_diffs [of omega_n]
    by (simp add: Check_diffs unchanged_def)
next
  case (Solve_step h dstep)
  show ?thesis
    using unchanged_solve_step [of Yg h dstep] unchanged_solve_step [of params h dstep]
      unchanged_solve_step [of opt h dstep] unchanged_solve_step [of omega_n h dstep]
    by (simp add: Solve_step unchanged_def)
qed

lemma after_calls_fixed:
  "Yg (after_calls cs m) = Yg m \<and> params (after_calls cs m) = params m \<and>
   opt (after_calls cs m) = opt m \<and> omega_n (after_calls cs m) = omega_n m"
  unfolding after_calls_def
  by (induction cs arbitrary: m) (simp_all add: after_call_fixed)

subsection \<open>The stages of \<open>solve_step\<close> on a machine that is ready\<close>

lemma residuals_ready_run:
  "residuals_ready m \<Longrightarrow> residuals m = (Inr (rhs m ''Eqp'', rhs m ''Edp''), m)"
  unfolding residuals_def residuals_ready_def
  by (simp add: py_bind_Inr get_item_val divide_float_ok rhs_def py_return_def)

lemma calc_increments_ready:
  assumes "ready m"
  shows "calc_increments h m =
    (Inr \<lparr>omega_0 = val (states m) ''omega'', delta_0 = val (states m) ''delta'',
          Eqp_0 = val (states m) ''Eqp'', Edp_0 = val (states m) ''Edp'',
          k_Eqp = h * rhs m ''Eqp'', k_Edp = h * rhs m ''Edp'',
          k_omega = h * rhs m ''omega'', k_delta = h * rhs m ''delta''\<rparr>, m)"
  using assms unfolding calc_increments_def ready_def residuals_ready_def
  by (simp add: py_bind_Inr get_item_val divide_float_ok rhs_def py_return_def)

lemma solve_step_ready:
  "ready m \<Longrightarrow> solve_step h dstep m =
    (let i = \<lparr>omega_0 = val (states m) ''omega'', delta_0 = val (states m) ''delta'',
          Eqp_0 = val (states m) ''Eqp'', Edp_0 = val (states m) ''Edp'',
          k_Eqp = h * rhs m ''Eqp'', k_Edp = h * rhs m ''Edp'',
          k_omega = h * rhs m ''omega'', k_delta = h * rhs m ''delta''\<rparr> in
     if opt m = ''mod_euler'' then mod_euler dstep i m
     else if opt m = ''runge_kutta'' then runge_kutta dstep i m
     else (Inr (), m))"
  by (simp add: solve_step_def py_bind_Inr calc_increments_ready py_return_def Let_def)

lemma assign_reset_run:
  "assign_reset v x k self =
    (Inr (), self\<lparr>states := (states self)(v \<mapsto> x), dsteps := (dsteps self)(v \<mapsto> [k])\<rparr>)"
  by (simp add: assign_reset_def py_then_def py_bind_def set_state_def set_dsteps_def)

lemma assign_append_run:
  "dsteps self v = Some d \<Longrightarrow> assign_append v x k self =
    (Inr (), self\<lparr>states := (states self)(v \<mapsto> x), dsteps := (dsteps self)(v \<mapsto> d @ [k])\<rparr>)"
  by (simp add: assign_append_def append_dsteps_def py_then_def py_bind_def set_state_def
      set_dsteps_def get_item_def)

lemma correct_run:
  "dsteps self v = Some d \<Longrightarrow> d \<noteq> [] \<Longrightarrow> correct v x k self =
    (Inr (), self\<lparr>states := (states self)(v \<mapsto> x + 0.5 * (k - d ! 0))\<rparr>)"
  by (simp add: correct_def get_dstep_def get_index_def py_bind_def set_state_def
      get_item_def py_return_def)

lemma combine_run:
  "states0 self v = Some x0 \<Longrightarrow> dsteps self v = Some d \<Longrightarrow> 3 \<le> length d \<Longrightarrow> combine v k self =
    (Inr (), self\<lparr>states := (states self)(v \<mapsto> x0 + 1/6 * (d ! 0 + 2 * d ! 1 + 2 * d ! 2 + k))\<rparr>)"
  by (auto simp: combine_def get_dstep_def get_index_def py_bind_def set_state_def
      get_item_def py_return_def)

lemma rk_stage0:
  assumes "opt m = ''runge_kutta''" and "ready m"
  shows "solve_step h 0 m = (Inr (), m\<lparr>
     states0 := (states0 m)(''omega'' \<mapsto> val (states m) ''omega'', ''delta'' \<mapsto> val (states m) ''delta'',
       ''Eqp'' \<mapsto> val (states m) ''Eqp'', ''Edp'' \<mapsto> val (states m) ''Edp''),
     states := (states m)
     (''Eqp'' \<mapsto> val (states m) ''Eqp'' + 0.5 * (h * rhs m ''Eqp''),
      ''Edp'' \<mapsto> val (states m) ''Edp'' + 0.5 * (h * rhs m ''Edp''),
      ''omega'' \<mapsto> val (states m) ''omega'' + 0.5 * (h * rhs m ''omega''),
      ''delta'' \<mapsto> val (states m) ''delta'' + 0.5 * (h * rhs m ''delta'')),
     dsteps := (dsteps m)(''Eqp'' \<mapsto> [h * rhs m ''Eqp''], ''Edp'' \<mapsto> [h * rhs m ''Edp''],
       ''omega'' \<mapsto> [h * rhs m ''omega''], ''delta'' \<mapsto> [h * rhs m ''delta''])\<rparr>)"
  using assms
  by (simp add: solve_step_ready runge_kutta_def py_then_Inr assign_reset_run set_state0_def)

lemma rk_stage12:
  assumes "opt m = ''runge_kutta''" and "ready m" and "dstep = 1 \<or> dstep = 2"
    and "\<forall>v \<in> set variables. dsteps m v = Some (d v)"
  shows "solve_step h dstep m = (Inr (), m\<lparr>
     states := (states m)
     (''Eqp'' \<mapsto> val (states m) ''Eqp'' + (if dstep = 1 then 0.5 else 1) * (h * rhs m ''Eqp''),
      ''Edp'' \<mapsto> val (states m) ''Edp'' + (if dstep = 1 then 0.5 else 1) * (h * rhs m ''Edp''),
      ''omega'' \<mapsto> val (states m) ''omega'' + (if dstep = 1 then 0.5 else 1) * (h * rhs m ''omega''),
      ''delta'' \<mapsto> val (states m) ''delta'' + (if dstep = 1 then 0.5 else 1) * (h * rhs m ''delta'')),
     dsteps := (dsteps m)(''Eqp'' \<mapsto> d ''Eqp'' @ [h * rhs m ''Eqp''], ''Edp'' \<mapsto> d ''Edp'' @ [h * rhs m ''Edp''],
       ''omega'' \<mapsto> d ''omega'' @ [h * rhs m ''omega''], ''delta'' \<mapsto> d ''delta'' @ [h * rhs m ''delta''])\<rparr>)"
  using assms
  by (auto simp: solve_step_ready runge_kutta_def py_then_Inr assign_append_run variables_def)

lemma rk_stage3:
  assumes "opt m = ''runge_kutta''" and "ready m"
    and "\<forall>v \<in> set variables. states0 m v = Some (x0 v) \<and> dsteps m v = Some (d v) \<and> 3 \<le> length (d v)"
  shows "solve_step h 3 m = (Inr (), m\<lparr>states := (states m)
     (''Eqp'' \<mapsto> x0 ''Eqp'' + 1/6 * (d ''Eqp'' ! 0 + 2 * d ''Eqp'' ! 1 + 2 * d ''Eqp'' ! 2 + h * rhs m ''Eqp''),
      ''Edp'' \<mapsto> x0 ''Edp'' + 1/6 * (d ''Edp'' ! 0 + 2 * d ''Edp'' ! 1 + 2 * d ''Edp'' ! 2 + h * rhs m ''Edp''),
      ''omega'' \<mapsto> x0 ''omega'' + 1/6 * (d ''omega'' ! 0 + 2 * d ''omega'' ! 1 + 2 * d ''omega'' ! 2 + h * rhs m ''omega''),
      ''delta'' \<mapsto> x0 ''delta'' + 1/6 * (d ''delta'' ! 0 + 2 * d ''delta'' ! 1 + 2 * d ''delta'' ! 2 + h * rhs m ''delta''))\<rparr>)"
  using assms
  by (simp add: solve_step_ready runge_kutta_def variables_def py_then_Inr combine_run)

lemma rk_other_stage:
  assumes "opt m = ''runge_kutta''" and "ready m" and "dstep \<notin> {0, 1, 2, 3}"
  shows "solve_step h dstep m = (Inr (), m)"
  using assms by (simp add: solve_step_ready runge_kutta_def py_return_def)

lemma me_predictor:
  assumes "opt m = ''mod_euler''" and "ready m"
  shows "solve_step h 0 m = (Inr (), m\<lparr>
     states := (states m)
     (''Eqp'' \<mapsto> val (states m) ''Eqp'' + h * rhs m ''Eqp'',
      ''Edp'' \<mapsto> val (states m) ''Edp'' + h * rhs m ''Edp'',
      ''omega'' \<mapsto> val (states m) ''omega'' + h * rhs m ''omega'',
      ''delta'' \<mapsto> val (states m) ''delta'' + h * rhs m ''delta''),
     dsteps := (dsteps m)(''Eqp'' \<mapsto> [h * rhs m ''Eqp''], ''Edp'' \<mapsto> [h * rhs m ''Edp''],
       ''omega'' \<mapsto> [h * rhs m ''omega''], ''delta'' \<mapsto> [h * rhs m ''delta''])\<rparr>)"
  using assms
  by (simp add: solve_step_ready mod_euler_def py_then_Inr assign_reset_run)

lemma me_corrector:
  assumes "opt m = ''mod_euler''" and "ready m" and "dstep \<noteq> 0"
    and "\<forall>v \<in> set variables. dsteps m v = Some (d v) \<and> d v \<noteq> []"
  shows "solve_step h dstep m = (Inr (), m\<lparr>
     states := (states m)
     (''Eqp'' \<mapsto> val (states m) ''Eqp'' + 0.5 * (h * rhs m ''Eqp'' - d ''Eqp'' ! 0),
      ''Edp'' \<mapsto> val (states m) ''Edp'' + 0.5 * (h * rhs m ''Edp'' - d ''Edp'' ! 0),
      ''omega'' \<mapsto> val (states m) ''omega'' + 0.5 * (h * rhs m ''omega'' - d ''omega'' ! 0),
      ''delta'' \<mapsto> val (states m) ''delta'' + 0.5 * (h * rhs m ''delta'' - d ''delta'' ! 0))\<rparr>)"
  using assms
  by (simp add: solve_step_ready mod_euler_def py_then_Inr correct_run variables_def)

subsection \<open>\<open>calc_currents\<close>, \<open>check_diffs\<close> and the constructor\<close>

lemma calc_currents_idem:
  "calc_currents vt (snd (calc_currents vt m)) = calc_currents vt m"
  by (auto simp: calc_currents_def run_defs Let_def split: option.splits prod.splits)

lemma calc_currents_determined:
  assumes "states m' = states m" "params m' = params m" "Yg m' = Yg m"
  shows "fst (calc_currents vt m') = fst (calc_currents vt m)"
  using assms
  by (simp add: calc_currents_def run_defs Let_def split: option.split prod.split)

lemma calc_currents_coupled:
  assumes "states m ''delta'' = Some delta" "states m ''Eqp'' = Some Eqp" "states m ''Edp'' = Some Edp"
    "params m ''Ra'' = Some Ra" "params m ''Xdp'' = Some Xdp" "params m ''Xqp'' = Some Xqp"
    and "Ra > 0" "Xdp * Xqp + Ra\<^sup>2 \<noteq> 0"
  shows "calc_currents vt m =
    (let Vd = cmod vt * sin (delta - Arg vt);
         Vq = cmod vt * cos (delta - Arg vt);
         I_q = (- Ra * (Vq - Eqp) + Xdp * (Vd - Edp)) / (Xdp * Xqp + Ra\<^sup>2);
         I_d = - (Vd - Edp - Xqp * I_q) / Ra in
     (Inr ((complex_of_real I_q - \<i> * complex_of_real I_d) * exp (\<i> * complex_of_real delta) + Yg m * vt),
      m\<lparr>signals := (signals m)(''Id'' \<mapsto> I_d, ''Iq'' \<mapsto> I_q, ''Vd'' \<mapsto> Vd, ''Vq'' \<mapsto> Vq,
         ''P'' \<mapsto> (Vd + Ra * I_d) * I_d + (Vq + Ra * I_q) * I_q, ''Q'' \<mapsto> Vq * I_d - Vd * I_q,
         ''Vt'' \<mapsto> sqrt (Vd\<^sup>2 + Vq\<^sup>2))\<rparr>))"
  using assms
  by (simp add: calc_currents_def run_defs Let_def)

lemma calc_currents_decoupled:
  assumes "states m ''delta'' = Some delta" "states m ''Eqp'' = Some Eqp" "states m ''Edp'' = Some Edp"
    "params m ''Ra'' = Some Ra" "params m ''Xdp'' = Some Xdp" "params m ''Xqp'' = Some Xqp"
    and "Ra \<le> 0" "Xdp \<noteq> 0" "Xqp \<noteq> 0"
  shows "calc_currents vt m =
    (let Vd = cmod vt * sin (delta - Arg vt);
         Vq = cmod vt * cos (delta - Arg vt);
         I_d = (Eqp - Vq) / Xdp;
         I_q = (Vd - Edp) / Xqp in
     (Inr ((complex_of_real I_q - \<i> * complex_of_real I_d) * exp (\<i> * complex_of_real delta) + Yg m * vt),
      m\<lparr>signals := (signals m)(''Id'' \<mapsto> I_d, ''Iq'' \<mapsto> I_q, ''Vd'' \<mapsto> Vd, ''Vq'' \<mapsto> Vq,
         ''P'' \<mapsto> (Vd + Ra * I_d) * I_d + (Vq + Ra * I_q) * I_q, ''Q'' \<mapsto> Vq * I_d - Vd * I_q,
         ''Vt'' \<mapsto> sqrt (Vd\<^sup>2 + Vq\<^sup>2))\<rparr>))"
  using assms
  by (simp add: calc_currents_def run_defs Let_def)

text \<open>The two equations that the branch \<open>Ra > 0\<close> solves are those by which
  \<open>initialise\<close> defines \<open>Eqp0\<close> and \<open>Edp0\<close>.\<close>

lemma coupled_solution:
  fixes Ra :: real
  assumes "Ra > 0" "Xdp * Xqp + Ra\<^sup>2 \<noteq> 0"
    and "I_q = (- Ra * (Vq - Eqp) + Xdp * (Vd - Edp)) / (Xdp * Xqp + Ra\<^sup>2)"
    and "I_d = - (Vd - Edp - Xqp * I_q) / Ra"
  shows "Vq + Ra * I_q + Xdp * I_d = Eqp \<and> Vd + Ra * I_d - Xqp * I_q = Edp"
proof -
  have Ra: "Ra \<noteq> 0" using assms(1) by simp
  have 2: "Ra * I_d = - (Vd - Edp - Xqp * I_q)" using Ra assms(4) by simp
  have 1: "(Xdp * Xqp + Ra\<^sup>2) * I_q = - Ra * (Vq - Eqp) + Xdp * (Vd - Edp)"
    using assms(2,3) by simp
  have "Ra * (Vq + Ra * I_q + Xdp * I_d) = Ra * Vq + Ra\<^sup>2 * I_q + Xdp * (Ra * I_d)"
    by (simp add: algebra_simps power2_eq_square)
  also have "\<dots> = Ra * Vq + (Xdp * Xqp + Ra\<^sup>2) * I_q - Xdp * (Vd - Edp)"
    unfolding 2 by (simp add: algebra_simps)
  also have "\<dots> = Ra * Eqp" unfolding 1 by (simp add: algebra_simps)
  finally have "Vq + Ra * I_q + Xdp * I_d = Eqp" using Ra by simp
  moreover have "Vd + Ra * I_d - Xqp * I_q = Edp" unfolding 2 by simp
  ultimately show ?thesis by simp
qed

text \<open>When \<open>calc_currents\<close> returns, it has found its six inputs and taken one of the
  two branches with nonzero divisors.\<close>

lemma calc_currents_returns:
  assumes "fst (calc_currents vt m) = Inr im"
  obtains delta Eqp Edp Ra Xdp Xqp where
    "states m ''delta'' = Some delta" "states m ''Eqp'' = Some Eqp" "states m ''Edp'' = Some Edp"
    "params m ''Ra'' = Some Ra" "params m ''Xdp'' = Some Xdp" "params m ''Xqp'' = Some Xqp"
    "(Ra > 0 \<and> Xdp * Xqp + Ra\<^sup>2 \<noteq> 0) \<or> (Ra \<le> 0 \<and> Xdp \<noteq> 0 \<and> Xqp \<noteq> 0)"
proof -
  obtain delta where d: "states m ''delta'' = Some delta"
    using assms by (auto simp: calc_currents_def run_defs split: option.splits)
  obtain Ra where r: "params m ''Ra'' = Some Ra"
    using assms d by (auto simp: calc_currents_def run_defs Let_def split: option.splits)
  obtain Eqp where q: "states m ''Eqp'' = Some Eqp"
    using assms d r by (cases "Ra > 0") (auto simp: calc_currents_def run_defs Let_def split: option.splits)
  obtain Xdp where xd: "params m ''Xdp'' = Some Xdp"
    using assms d r q by (cases "Ra > 0") (auto simp: calc_currents_def run_defs Let_def split: option.splits)
  show ?thesis
  proof (cases "Ra > 0")
    case True
    obtain Edp where e: "states m ''Edp'' = Some Edp"
      using assms d r q xd True by (auto simp: calc_currents_def run_defs Let_def split: option.splits)
    obtain Xqp where xq: "params m ''Xqp'' = Some Xqp"
      using assms d r q xd e True by (auto simp: calc_currents_def run_defs Let_def split: option.splits)
    have nz: "Xdp * Xqp + Ra\<^sup>2 \<noteq> 0"
      using assms d r q xd e xq True by (auto simp: calc_currents_def run_defs Let_def split: if_splits)
    show ?thesis using that [OF d q e r xd xq] True nz by simp
  next
    case False
    have x0: "Xdp \<noteq> 0"
      using assms d r q xd False by (auto simp: calc_currents_def run_defs Let_def split: if_splits)
    obtain Edp where e: "states m ''Edp'' = Some Edp"
      using assms d r q xd False x0 by (auto simp: calc_currents_def run_defs Let_def split: option.splits)
    obtain Xqp where xq: "params m ''Xqp'' = Some Xqp"
      using assms d r q xd e False x0 by (auto simp: calc_currents_def run_defs Let_def split: option.splits)
    have nz: "Xqp \<noteq> 0"
      using assms d r q xd e xq False x0 by (auto simp: calc_currents_def run_defs Let_def split: if_splits)
    show ?thesis using that [OF d q e r xd xq] False x0 nz by simp
  qed
qed

lemma calc_currents_injection_of:
  assumes "calc_currents vt m = (Inr im, m')"
  shows "im = (complex_of_real (val (signals m') ''Iq'') - \<i> * complex_of_real (val (signals m') ''Id''))
            * exp (\<i> * complex_of_real (val (states m) ''delta'')) + Yg m * vt"
proof -
  from assms have "fst (calc_currents vt m) = Inr im" by simp
  then obtain delta Eqp Edp Ra Xdp Xqp where
    in6: "states m ''delta'' = Some delta" "states m ''Eqp'' = Some Eqp" "states m ''Edp'' = Some Edp"
      "params m ''Ra'' = Some Ra" "params m ''Xdp'' = Some Xdp" "params m ''Xqp'' = Some Xqp"
    and br: "(Ra > 0 \<and> Xdp * Xqp + Ra\<^sup>2 \<noteq> 0) \<or> (Ra \<le> 0 \<and> Xdp \<noteq> 0 \<and> Xqp \<noteq> 0)"
    by (rule calc_currents_returns)
  from br show ?thesis
  proof
    assume "Ra > 0 \<and> Xdp * Xqp + Ra\<^sup>2 \<noteq> 0"
    then show ?thesis
      using assms calc_currents_coupled [OF in6, of vt] in6(1) by (auto simp: Let_def val_def)
  next
    assume "Ra \<le> 0 \<and> Xdp \<noteq> 0 \<and> Xqp \<noteq> 0"
    then show ?thesis
      using assms calc_currents_decoupled [OF in6, of vt] in6(1) by (auto simp: Let_def val_def)
  qed
qed

lemma calc_currents_written:
  assumes same: "states m' = states m" "params m' = params m" "Yg m' = Yg m"
    and ret: "fst (calc_currents vt m) = Inr im"
    and k: "k \<in> {''Id'', ''Iq'', ''Vd'', ''Vq'', ''P'', ''Q'', ''Vt''}"
  shows "signals (snd (calc_currents vt m')) k = signals (snd (calc_currents vt m)) k"
proof -
  from ret obtain delta Eqp Edp Ra Xdp Xqp where
    in6: "states m ''delta'' = Some delta" "states m ''Eqp'' = Some Eqp" "states m ''Edp'' = Some Edp"
      "params m ''Ra'' = Some Ra" "params m ''Xdp'' = Some Xdp" "params m ''Xqp'' = Some Xqp"
    and br: "(Ra > 0 \<and> Xdp * Xqp + Ra\<^sup>2 \<noteq> 0) \<or> (Ra \<le> 0 \<and> Xdp \<noteq> 0 \<and> Xqp \<noteq> 0)"
    by (rule calc_currents_returns)
  have in6': "states m' ''delta'' = Some delta" "states m' ''Eqp'' = Some Eqp"
    "states m' ''Edp'' = Some Edp" "params m' ''Ra'' = Some Ra" "params m' ''Xdp'' = Some Xdp"
    "params m' ''Xqp'' = Some Xqp"
    using in6 same by simp_all
  from br show ?thesis
  proof
    assume c: "Ra > 0 \<and> Xdp * Xqp + Ra\<^sup>2 \<noteq> 0"
    show ?thesis
      using k c calc_currents_coupled [OF in6, of vt] calc_currents_coupled [OF in6', of vt]
      by (auto simp: Let_def)
  next
    assume c: "Ra \<le> 0 \<and> Xdp \<noteq> 0 \<and> Xqp \<noteq> 0"
    show ?thesis
      using k c calc_currents_decoupled [OF in6, of vt] calc_currents_decoupled [OF in6', of vt]
      by (auto simp: Let_def)
  qed
qed

lemma check_diffs_2014_ready:
  "residuals_ready m \<Longrightarrow> check_diffs_2014 m =
    (Inr (if rhs m ''Edp'' \<noteq> 0 \<or> rhs m ''Eqp'' \<noteq> 0 then
            [[Text ''Differential equations not zero on initialisation...'']]
          else []), m)"
  by (simp add: check_diffs_2014_def py_bind_Inr residuals_ready_run py_return_def)

text \<open>Rounding to six decimals gives zero exactly on the interval from \<open>-0.0000005\<close> to
  \<open>0.0000005\<close>, ends included.\<close>

lemma round_half_even_eq_0_iff: "round_half_even x = 0 \<longleftrightarrow> \<bar>x\<bar> \<le> 1/2"
proof -
  define f where "f = \<lfloor>x\<rfloor>"
  have lo: "of_int f \<le> x" and hi: "x < of_int f + 1"
    unfolding f_def by linarith+
  have r: "round_half_even x =
    (if x - of_int f < 1/2 then f else if x - of_int f > 1/2 then f + 1
     else if even f then f else f + 1)"
    by (simp add: round_half_even_def f_def Let_def)
  consider "f \<le> -2" | "f = -1" | "f = 0" | "f \<ge> 1" by linarith
  then show ?thesis
  proof cases
    case 1
    then have "of_int f \<le> (-2::real)" by linarith
    with hi have "x < -1" by linarith
    with 1 show ?thesis unfolding r by auto
  next
    case 2
    with lo hi have "-1 \<le> x" "x < 0" by simp_all
    with 2 show ?thesis unfolding r by auto
  next
    case 3
    with lo hi have "0 \<le> x" "x < 1" by simp_all
    with 3 show ?thesis unfolding r by auto
  next
    case 4
    then have "(1::real) \<le> of_int f" by linarith
    with lo have "1 \<le> x" by linarith
    with 4 show ?thesis unfolding r by auto
  qed
qed

lemma py_round_6_eq_0_iff: "py_round x 6 = 0 \<longleftrightarrow> \<bar>x\<bar> \<le> 5 / 10 ^ 7"
proof -
  have "py_round x 6 = 0 \<longleftrightarrow> \<bar>x * 10 ^ 6\<bar> \<le> 1/2"
    by (simp add: py_round_def round_half_even_eq_0_iff)
  also have "\<dots> \<longleftrightarrow> \<bar>x\<bar> \<le> 5 / 10 ^ 7"
    by (simp add: abs_mult) linarith
  finally show ?thesis .
qed

lemma sym_order4_Inr:
  assumes "sym_order4 ps iopt = Inr m0"
  shows "params m0 = ps \<and> opt m0 = iopt \<and>
    Yg m0 = (complex_of_real (val ps ''Ra'') - \<i> * 0.5 * complex_of_real (val ps ''Xdp'' + val ps ''Xqp''))
              / complex_of_real ((val ps ''Ra'')\<^sup>2 + val ps ''Xdp'' * val ps ''Xqp'')"
  using assms by (auto simp: sym_order4_def val_def split: option.splits if_splits)

lemma Arg_one: "Arg 1 = 0"
  by (rule cis_Arg_unique) simp_all

subsection \<open>The example\<close>

lemmas example_defs = example_def example_params_def example_Ra_def example_quiet_def
  example_new_def

lemma example_fields:
  "opt (example iopt) = iopt" "params (example iopt) = example_params"
  "ready (example iopt)"
  by (simp_all add: example_def ready_def residuals_ready_def example_params_def val_def)

lemma example_rk1_eq:
  "example_rk1 = (example ''runge_kutta'')\<lparr>
     states0 := [''omega'' \<mapsto> 1, ''delta'' \<mapsto> 0, ''Eqp'' \<mapsto> 1, ''Edp'' \<mapsto> 0],
     states := [''Eqp'' \<mapsto> 201 / 200, ''Edp'' \<mapsto> 7 / 500, ''omega'' \<mapsto> 2007 / 2000, ''delta'' \<mapsto> 0],
     dsteps := [''Eqp'' \<mapsto> [1 / 100], ''Edp'' \<mapsto> [7 / 250], ''omega'' \<mapsto> [7 / 1000], ''delta'' \<mapsto> [0]]\<rparr>"
  by (simp add: example_rk1_def run_defs example_defs)

lemma example_rk2_eq:
  "example_rk2 = (example ''runge_kutta'')\<lparr>
     states0 := [''omega'' \<mapsto> 1, ''delta'' \<mapsto> 0, ''Eqp'' \<mapsto> 1, ''Edp'' \<mapsto> 0],
     states := [''Eqp'' \<mapsto> 40399 / 40000, ''Edp'' \<mapsto> 2051 / 75000, ''omega'' \<mapsto> 1007 / 1000,
       ''delta'' \<mapsto> 49 * pi / 4000],
     dsteps := [''Eqp'' \<mapsto> [1 / 100, 199 / 20000], ''Edp'' \<mapsto> [7 / 250, 1001 / 37500],
       ''omega'' \<mapsto> [7 / 1000, 7 / 1000], ''delta'' \<mapsto> [0, 49 * pi / 2000]]\<rparr>"
  by (simp add: example_rk2_def example_rk1_eq run_defs example_defs)

lemma example_rk3_eq:
  "example_rk3 = (example ''runge_kutta'')\<lparr>
     states0 := [''omega'' \<mapsto> 1, ''delta'' \<mapsto> 0, ''Eqp'' \<mapsto> 1, ''Edp'' \<mapsto> 0],
     states := [''Eqp'' \<mapsto> 4079501 / 4000000, ''Edp'' \<mapsto> 37121 / 703125, ''omega'' \<mapsto> 507 / 500,
       ''delta'' \<mapsto> 49 * pi / 800],
     dsteps := [''Eqp'' \<mapsto> [1 / 100, 199 / 20000, 39601 / 4000000],
       ''Edp'' \<mapsto> [7 / 250, 1001 / 37500, 143143 / 5625000],
       ''omega'' \<mapsto> [7 / 1000, 7 / 1000, 7 / 1000],
       ''delta'' \<mapsto> [0, 49 * pi / 2000, 49 * pi / 1000]]\<rparr>"
  by (simp add: example_rk3_def example_rk2_eq run_defs example_defs)

lemma example_rk4_eq:
  "example_rk4 = (example ''runge_kutta'')\<lparr>
     states0 := [''omega'' \<mapsto> 1, ''delta'' \<mapsto> 0, ''Eqp'' \<mapsto> 1, ''Edp'' \<mapsto> 0],
     states := [''Eqp'' \<mapsto> 2423800699 / 2400000000, ''Edp'' \<mapsto> 32770087 / 1265625000,
       ''omega'' \<mapsto> 1007 / 1000, ''delta'' \<mapsto> 49 * pi / 1200],
     dsteps := [''Eqp'' \<mapsto> [1 / 100, 199 / 20000, 39601 / 4000000],
       ''Edp'' \<mapsto> [7 / 250, 1001 / 37500, 143143 / 5625000],
       ''omega'' \<mapsto> [7 / 1000, 7 / 1000, 7 / 1000],
       ''delta'' \<mapsto> [0, 49 * pi / 2000, 49 * pi / 1000]]\<rparr>"
  by (simp add: example_rk4_def example_rk3_eq run_defs example_defs)

lemma example_me1_eq:
  "example_me1 = (example ''mod_euler'')\<lparr>
     states := [''Eqp'' \<mapsto> 101 / 100, ''Edp'' \<mapsto> 7 / 250, ''omega'' \<mapsto> 1007 / 1000, ''delta'' \<mapsto> 0],
     dsteps := [''Eqp'' \<mapsto> [1 / 100], ''Edp'' \<mapsto> [7 / 250], ''omega'' \<mapsto> [7 / 1000], ''delta'' \<mapsto> [0]]\<rparr>"
  by (simp add: example_me1_def run_defs example_defs)

section \<open>The claims\<close>

text \<open>
  C1. In the runge_kutta scheme, \<open>solve_step\<close> at stage 1 is claimed to set each state
  variable to the stage-0 snapshot \<open>states0\<close> plus 0.5 times \<open>k2\<close>, and at stage 2 to
  the snapshot plus \<open>k3\<close>. The code adds to the state that the preceding stage left
  (\<open>rk_stage12\<close> above). On the example, with \<open>h = 0.07\<close>: the snapshot of \<open>Eqp\<close>
  is 1 and \<open>k1, k2, k3\<close> are 0.01, 0.00995 and 0.00990025; stage 1 leaves
  \<open>1 + 0.5 k1 + 0.5 k2\<close>, not \<open>1 + 0.5 k2\<close>, and stage 2 leaves
  \<open>1 + 0.5 k1 + 0.5 k2 + k3\<close>, not \<open>1 + k3\<close>.
\<close>

theorem runge_kutta_stages_1_2_cumulative:
  "fst (solve_step (7/100) 1 example_rk1) = Inr () \<and>
   states0 example_rk2 ''Eqp'' = Some 1 \<and>
   dsteps example_rk2 ''Eqp'' = Some [1/100, 199/20000] \<and>
   states example_rk2 ''Eqp'' = Some (1 + 0.5 * (1/100) + 0.5 * (199/20000)) \<and>
   states example_rk2 ''Eqp'' \<noteq> Some (1 + 0.5 * (199/20000)) \<and>
   fst (solve_step (7/100) 2 example_rk2) = Inr () \<and>
   states0 example_rk3 ''Eqp'' = Some 1 \<and>
   dsteps example_rk3 ''Eqp'' = Some [1/100, 199/20000, 39601/4000000] \<and>
   states example_rk3 ''Eqp'' = Some (1 + 0.5 * (1/100) + 0.5 * (199/20000) + 39601/4000000) \<and>
   states example_rk3 ''Eqp'' \<noteq> Some (1 + 39601/4000000)"
proof -
  have "fst (solve_step (7/100) 1 example_rk1) = Inr ()"
    by (simp add: example_rk1_eq run_defs example_defs)
  moreover have "fst (solve_step (7/100) 2 example_rk2) = Inr ()"
    by (simp add: example_rk2_eq run_defs example_defs)
  ultimately show ?thesis
    by (simp add: example_rk2_eq example_rk3_eq)
qed

text \<open>
  C2. In the runge_kutta scheme, after \<open>solve_step\<close> at stage 3 each state variable
  equals the stage-0 snapshot plus \<open>1/6 (k1 + 2 k2 + 2 k3 + k4)\<close>, where \<open>k1, k2, k3\<close>
  are the first three stored increments and \<open>k4 = h f\<close> is the increment computed at
  stage 3. The machine is ready, and the snapshot and three increments are stored.
\<close>

theorem runge_kutta_stage3_combination:
  assumes "opt m = ''runge_kutta''" and "ready m"
    and "\<forall>v \<in> set variables. states0 m v = Some (x0 v) \<and> dsteps m v = Some (d v) \<and> 3 \<le> length (d v)"
  shows "fst (solve_step h 3 m) = Inr () \<and>
    (\<forall>v \<in> set variables. states (snd (solve_step h 3 m)) v =
       Some (x0 v + 1/6 * (d v ! 0 + 2 * d v ! 1 + 2 * d v ! 2 + h * rhs m v)))"
  by (simp add: rk_stage3 [OF assms] variables_def)

theorem runge_kutta_stage3_combination_witness:
  "opt example_rk3 = ''runge_kutta'' \<and> ready example_rk3 \<and>
   states0 example_rk3 ''Eqp'' = Some 1 \<and>
   dsteps example_rk3 ''Eqp'' = Some [1/100, 199/20000, 39601/4000000] \<and>
   rhs example_rk3 ''Eqp'' = (2 - 4079501/4000000) / 7 \<and>
   fst (solve_step (7/100) 3 example_rk3) = Inr () \<and>
   states (snd (solve_step (7/100) 3 example_rk3)) ''Eqp'' =
     Some (1 + 1/6 * (1/100 + 2 * (199/20000) + 2 * (39601/4000000)
                      + 7/100 * ((2 - 4079501/4000000) / 7)))"
  using runge_kutta_stage3_combination [of example_rk3 "val (states0 example_rk3)"
      "val (dsteps example_rk3)" "7/100"]
  by (simp add: example_rk3_eq example_defs variables_def val_def ready_def residuals_ready_def
      rhs_def)

text \<open>
  C3. In the mod_euler scheme, \<open>solve_step\<close> at the corrector stage (any stage index other
  than 0) sets each state variable to the value it has at the start of the call plus
  \<open>0.5 (h f - k0)\<close>, where \<open>k0\<close> is the stored predictor increment; when the
  corrector increment equals \<open>k0\<close>, the variable keeps the predicted value.
\<close>

theorem mod_euler_corrector:
  assumes "opt m = ''mod_euler''" and "ready m" and "dstep \<noteq> 0"
    and "\<forall>v \<in> set variables. dsteps m v = Some (d v) \<and> d v \<noteq> []"
  shows "fst (solve_step h dstep m) = Inr () \<and>
    (\<forall>v \<in> set variables.
       states (snd (solve_step h dstep m)) v =
         Some (val (states m) v + 0.5 * (h * rhs m v - d v ! 0)) \<and>
       (h * rhs m v = d v ! 0 \<longrightarrow> states (snd (solve_step h dstep m)) v = states m v))"
proof -
  have dom: "\<forall>v \<in> set variables. states m v = Some (val (states m) v)"
    using assms(2) by (auto simp: ready_def residuals_ready_def variables_def val_def)
  show ?thesis
    using dom by (simp add: me_corrector [OF assms] variables_def)
qed

theorem mod_euler_corrector_witness:
  "opt example_me1 = ''mod_euler'' \<and> ready example_me1 \<and>
   dsteps example_me1 ''Eqp'' = Some [1/100] \<and> dsteps example_me1 ''omega'' = Some [7/1000] \<and>
   states example_me1 ''Eqp'' = Some (101/100) \<and> states example_me1 ''omega'' = Some (1007/1000) \<and>
   7/100 * rhs example_me1 ''Eqp'' = 99/10000 \<and> 7/100 * rhs example_me1 ''omega'' = 7/1000 \<and>
   fst (solve_step (7/100) 1 example_me1) = Inr () \<and>
   states (snd (solve_step (7/100) 1 example_me1)) ''Eqp'' = Some (101/100 + 0.5 * (99/10000 - 1/100)) \<and>
   states (snd (solve_step (7/100) 1 example_me1)) ''omega'' = Some (1007/1000)"
  using mod_euler_corrector [of example_me1 1 "val (dsteps example_me1)" "7/100"]
  by (simp add: example_me1_eq example_defs variables_def val_def ready_def residuals_ready_def
      rhs_def)

text \<open>
  C4. \<open>check_diffs\<close> recomputes the residuals \<open>dEqp\<close> and \<open>dEdp\<close> from the states,
  signals and parameters as they are; it prints the warning, whose second line holds both
  residuals, exactly when one of them rounded to six decimals is not zero; in both cases
  it returns normally and leaves the object as it was. The entries it reads are present
  and \<open>Td0p\<close>, \<open>Tq0p\<close> are not zero.
\<close>

theorem check_diffs_diagnostic:
  assumes "residuals_ready m"
  shows "check_diffs m =
    (Inr (if py_round (rhs m ''Edp'') 6 \<noteq> 0 \<or> py_round (rhs m ''Eqp'') 6 \<noteq> 0 then
            [[Text ''Warning: differential equations not zero on initialisation...''],
             [Text ''dEdp = '', Float (rhs m ''Edp''), Text '', dEqp = '', Float (rhs m ''Eqp'')]]
          else []), m)"
  using assms by (simp add: check_diffs_def py_bind_Inr residuals_ready_run py_return_def)

theorem check_diffs_diagnostic_witness:
  "residuals_ready (example ''runge_kutta'') \<and>
   check_diffs (example ''runge_kutta'') =
     (Inr [[Text ''Warning: differential equations not zero on initialisation...''],
           [Text ''dEdp = '', Float (2/5), Text '', dEqp = '', Float (1/7)]],
      example ''runge_kutta'') \<and>
   residuals_ready example_quiet \<and> rhs example_quiet ''Eqp'' = 1 / 10 ^ 7 \<and>
   check_diffs example_quiet = (Inr [], example_quiet)"
  using check_diffs_diagnostic [of "example ''runge_kutta''"] check_diffs_diagnostic [of example_quiet]
  by (simp add: example_defs residuals_ready_def val_def rhs_def py_round_def round_half_even_def)

text \<open>
  C5. \<open>calc_currents\<close> chooses by \<open>Ra > 0\<close>. With \<open>Ra > 0\<close> the stored \<open>Iq\<close> and
  \<open>Id\<close> are the solution, with the divisor \<open>Xdp Xqp + Ra\<^sup>2\<close>, of the two equations
  \<open>Vq + Ra Iq + Xdp Id = Eqp\<close> and \<open>Vd + Ra Id - Xqp Iq = Edp\<close>; with \<open>Ra \<le> 0\<close> they
  are \<open>Id = (Eqp - Vq) / Xdp\<close> and \<open>Iq = (Vd - Edp) / Xqp\<close>. \<open>Vd\<close> and \<open>Vq\<close> are the
  projections of \<open>vt\<close> by the rotor angle \<open>delta\<close>. The six inputs are present and the
  divisors of the branch taken are not zero.
\<close>

theorem calc_currents_two_policies:
  assumes "states m ''delta'' = Some delta" "states m ''Eqp'' = Some Eqp" "states m ''Edp'' = Some Edp"
    "params m ''Ra'' = Some Ra" "params m ''Xdp'' = Some Xdp" "params m ''Xqp'' = Some Xqp"
    and "Vd = cmod vt * sin (delta - Arg vt)" and "Vq = cmod vt * cos (delta - Arg vt)"
    and "m' = snd (calc_currents vt m)"
    and "I_d = val (signals m') ''Id''" and "I_q = val (signals m') ''Iq''"
  shows "(0 < Ra \<and> Xdp * Xqp + Ra\<^sup>2 \<noteq> 0 \<longrightarrow>
            (\<exists>im. fst (calc_currents vt m) = Inr im) \<and>
            signals m' ''Vd'' = Some Vd \<and> signals m' ''Vq'' = Some Vq \<and>
            signals m' ''Id'' = Some I_d \<and> signals m' ''Iq'' = Some I_q \<and>
            I_q = (- Ra * (Vq - Eqp) + Xdp * (Vd - Edp)) / (Xdp * Xqp + Ra\<^sup>2) \<and>
            I_d = - (Vd - Edp - Xqp * I_q) / Ra \<and>
            Vq + Ra * I_q + Xdp * I_d = Eqp \<and> Vd + Ra * I_d - Xqp * I_q = Edp) \<and>
         (Ra \<le> 0 \<and> Xdp \<noteq> 0 \<and> Xqp \<noteq> 0 \<longrightarrow>
            (\<exists>im. fst (calc_currents vt m) = Inr im) \<and>
            signals m' ''Vd'' = Some Vd \<and> signals m' ''Vq'' = Some Vq \<and>
            signals m' ''Id'' = Some I_d \<and> signals m' ''Iq'' = Some I_q \<and>
            I_d = (Eqp - Vq) / Xdp \<and> I_q = (Vd - Edp) / Xqp)"
proof (intro conjI impI)
  assume c: "0 < Ra \<and> Xdp * Xqp + Ra\<^sup>2 \<noteq> 0"
  then have pos: "0 < Ra" and nz: "Xdp * Xqp + Ra\<^sup>2 \<noteq> 0" by simp_all
  note run = calc_currents_coupled [OF assms(1-6) pos nz, of vt]
  show "\<exists>im. fst (calc_currents vt m) = Inr im" by (simp add: run Let_def)
  show "signals m' ''Vd'' = Some Vd" "signals m' ''Vq'' = Some Vq"
    using assms(7-9) by (simp_all add: run Let_def)
  show q: "I_q = (- Ra * (Vq - Eqp) + Xdp * (Vd - Edp)) / (Xdp * Xqp + Ra\<^sup>2)"
    using assms(7-11) by (simp add: run Let_def val_def)
  show d: "I_d = - (Vd - Edp - Xqp * I_q) / Ra"
    using assms(7-11) by (simp add: run Let_def val_def)
  show "signals m' ''Id'' = Some I_d" "signals m' ''Iq'' = Some I_q"
    using assms(9-11) by (simp_all add: run Let_def val_def)
  show "Vq + Ra * I_q + Xdp * I_d = Eqp" "Vd + Ra * I_d - Xqp * I_q = Edp"
    using coupled_solution [OF pos nz q d] by simp_all
next
  assume c: "Ra \<le> 0 \<and> Xdp \<noteq> 0 \<and> Xqp \<noteq> 0"
  then have le: "Ra \<le> 0" and nd: "Xdp \<noteq> 0" and nq: "Xqp \<noteq> 0" by simp_all
  note run = calc_currents_decoupled [OF assms(1-6) le nd nq, of vt]
  show "\<exists>im. fst (calc_currents vt m) = Inr im" by (simp add: run Let_def)
  show "signals m' ''Vd'' = Some Vd" "signals m' ''Vq'' = Some Vq"
    using assms(7-9) by (simp_all add: run Let_def)
  show "I_d = (Eqp - Vq) / Xdp" "I_q = (Vd - Edp) / Xqp"
    using assms(7-11) by (simp_all add: run Let_def val_def)
  show "signals m' ''Id'' = Some I_d" "signals m' ''Iq'' = Some I_q"
    using assms(9-11) by (simp_all add: run Let_def val_def)
qed

theorem calc_currents_two_policies_witness:
  "params example_Ra ''Ra'' = Some (1/10) \<and>
   signals (snd (calc_currents \<i> example_Ra)) ''Vd'' = Some (- 1) \<and>
   signals (snd (calc_currents \<i> example_Ra)) ''Vq'' = Some 0 \<and>
   signals (snd (calc_currents \<i> example_Ra)) ''Iq'' = Some (- 5/4) \<and>
   signals (snd (calc_currents \<i> example_Ra)) ''Id'' = Some (15/4) \<and>
   params (example ''runge_kutta'') ''Ra'' = Some 0 \<and>
   signals (snd (calc_currents \<i> (example ''runge_kutta''))) ''Vd'' = Some (- 1) \<and>
   signals (snd (calc_currents \<i> (example ''runge_kutta''))) ''Vq'' = Some 0 \<and>
   signals (snd (calc_currents \<i> (example ''runge_kutta''))) ''Id'' = Some (10/3) \<and>
   signals (snd (calc_currents \<i> (example ''runge_kutta''))) ''Iq'' = Some (- 2)"
proof -
  have v: "(- 1::real) = cmod \<i> * sin (0 - Arg \<i>)" "(0::real) = cmod \<i> * cos (0 - Arg \<i>)"
    by simp_all
  have a: "states example_Ra ''delta'' = Some 0" "states example_Ra ''Eqp'' = Some 1"
    "states example_Ra ''Edp'' = Some 0" "params example_Ra ''Ra'' = Some (1/10)"
    "params example_Ra ''Xdp'' = Some (3/10)" "params example_Ra ''Xqp'' = Some (1/2)"
    by (simp_all add: example_defs)
  have b: "states (example ''runge_kutta'') ''delta'' = Some 0"
    "states (example ''runge_kutta'') ''Eqp'' = Some 1"
    "states (example ''runge_kutta'') ''Edp'' = Some 0"
    "params (example ''runge_kutta'') ''Ra'' = Some 0"
    "params (example ''runge_kutta'') ''Xdp'' = Some (3/10)"
    "params (example ''runge_kutta'') ''Xqp'' = Some (1/2)"
    by (simp_all add: example_defs)
  have "(0::real) < 1/10 \<and> (3/10) * (1/2) + (1/10)\<^sup>2 \<noteq> (0::real)"
    by (simp add: power2_eq_square)
  with calc_currents_two_policies [OF a v refl refl refl]
  have 1: "signals (snd (calc_currents \<i> example_Ra)) ''Vd'' = Some (- 1)"
    "signals (snd (calc_currents \<i> example_Ra)) ''Vq'' = Some 0"
    "signals (snd (calc_currents \<i> example_Ra)) ''Iq'' = Some (- 5/4)"
    "signals (snd (calc_currents \<i> example_Ra)) ''Id'' = Some (15/4)"
    by (simp_all add: power2_eq_square)
  have "(0::real) \<le> 0 \<and> (3/10::real) \<noteq> 0 \<and> (1/2::real) \<noteq> 0" by simp
  with calc_currents_two_policies [OF b v refl refl refl]
  have 2: "signals (snd (calc_currents \<i> (example ''runge_kutta''))) ''Vd'' = Some (- 1)"
    "signals (snd (calc_currents \<i> (example ''runge_kutta''))) ''Vq'' = Some 0"
    "signals (snd (calc_currents \<i> (example ''runge_kutta''))) ''Id'' = Some ((1 - 0) / (3/10))"
    "signals (snd (calc_currents \<i> (example ''runge_kutta''))) ''Iq'' = Some ((- 1 - 0) / (1/2))"
    by simp_all
  show ?thesis
    using a(4) b(4) 1 2 by simp
qed

text \<open>
  C6. The injection that \<open>calc_currents\<close> returns is the dq current \<open>Iq - j Id\<close> times
  \<open>exp (j delta)\<close> plus \<open>Yg vt\<close>; on an object built by the constructor, after any
  calls of its methods, \<open>Yg\<close> is \<open>(Ra - j 0.5 (Xdp + Xqp)) / (Ra\<^sup>2 + Xdp Xqp)\<close> of the
  parameters given to the constructor, which are unchanged too.
\<close>

theorem calc_currents_norton_injection:
  assumes "sym_order4 ps iopt = Inr m0" and "m = after_calls cs m0"
    and "calc_currents vt m = (Inr im, m')"
  shows "params m = ps \<and>
    Yg m = (complex_of_real (val ps ''Ra'') - \<i> * 0.5 * complex_of_real (val ps ''Xdp'' + val ps ''Xqp''))
             / complex_of_real ((val ps ''Ra'')\<^sup>2 + val ps ''Xdp'' * val ps ''Xqp'') \<and>
    Yg m' = Yg m \<and>
    im = (complex_of_real (val (signals m') ''Iq'') - \<i> * complex_of_real (val (signals m') ''Id''))
           * exp (\<i> * complex_of_real (val (states m) ''delta'')) + Yg m * vt"
proof -
  have "Yg m' = Yg (snd (calc_currents vt m))" using assms(3) by simp
  also have "\<dots> = Yg m"
    using unchanged_calc_currents [of Yg vt] by (simp add: unchanged_def)
  finally have "Yg m' = Yg m" .
  then show ?thesis
    using sym_order4_Inr [OF assms(1)] after_calls_fixed [of cs m0]
      calc_currents_injection_of [OF assms(3)] assms(2)
    by simp
qed

theorem calc_currents_norton_injection_witness:
  "sym_order4 example_params ''runge_kutta'' = Inr example_new \<and>
   states (after_calls [Initialise 1 0] example_new) ''delta'' = Some 0 \<and>
   Yg (after_calls [Initialise 1 0] example_new) = - \<i> * (8 / 3) \<and>
   signals (snd (calc_currents \<i> (after_calls [Initialise 1 0] example_new))) ''Iq'' = Some (- 2) \<and>
   signals (snd (calc_currents \<i> (after_calls [Initialise 1 0] example_new))) ''Id'' = Some (10 / 3) \<and>
   fst (calc_currents \<i> (after_calls [Initialise 1 0] example_new)) =
     Inr ((complex_of_real (- 2) - \<i> * complex_of_real (10 / 3)) * exp (\<i> * complex_of_real 0)
          + (- \<i> * (8 / 3)) * \<i>)"
proof -
  let ?m = "after_calls [Initialise 1 0] example_new"
  have new: "sym_order4 example_params ''runge_kutta'' = Inr example_new"
    by (simp add: sym_order4_def example_defs)
  have m: "?m = example_new\<lparr>
      signals := [''Vfd'' \<mapsto> 1, ''Id'' \<mapsto> 0, ''Iq'' \<mapsto> 0, ''Vd'' \<mapsto> 0, ''Vq'' \<mapsto> 1, ''Vt'' \<mapsto> 1,
                  ''P'' \<mapsto> 0, ''Q'' \<mapsto> 0, ''Pm'' \<mapsto> 0],
      states := [''omega'' \<mapsto> 1, ''delta'' \<mapsto> 0, ''Eqp'' \<mapsto> 1, ''Edp'' \<mapsto> 0]\<rparr>"
    by (simp add: after_calls_def initialise_def divide_complex_def check_diffs_def
        residuals_def py_round_def round_half_even_def Let_def run_defs Arg_one Arg_zero
        example_defs)
  have f: "fst (calc_currents \<i> ?m) = Inr (- 2 - \<i> * (10 / 3) + (- \<i> * (8 / 3)) * \<i>)"
    unfolding m by (simp add: calc_currents_def Let_def run_defs example_defs)
  have run: "calc_currents \<i> ?m =
    (Inr (- 2 - \<i> * (10 / 3) + (- \<i> * (8 / 3)) * \<i>), snd (calc_currents \<i> ?m))"
    using f by (metis prod.collapse)
  have s: "signals (snd (calc_currents \<i> ?m)) ''Iq'' = Some (- 2)"
    "signals (snd (calc_currents \<i> ?m)) ''Id'' = Some (10 / 3)"
    unfolding m by (simp_all add: calc_currents_def Let_def run_defs example_defs)
  have d: "states ?m ''delta'' = Some 0" unfolding m by simp
  have y: "Yg ?m = - \<i> * (8 / 3)" unfolding m by (simp add: example_defs)
  from calc_currents_norton_injection [OF new refl run]
  have "- 2 - \<i> * (10 / 3) + (- \<i> * (8 / 3)) * \<i> =
    (complex_of_real (val (signals (snd (calc_currents \<i> ?m))) ''Iq'')
      - \<i> * complex_of_real (val (signals (snd (calc_currents \<i> ?m))) ''Id''))
     * exp (\<i> * complex_of_real (val (states ?m) ''delta'')) + Yg ?m * \<i>"
    by simp
  then have "fst (calc_currents \<i> ?m) =
     Inr ((complex_of_real (- 2) - \<i> * complex_of_real (10 / 3)) * exp (\<i> * complex_of_real 0)
          + (- \<i> * (8 / 3)) * \<i>)"
    using s d y by (simp add: f val_def)
  then show ?thesis using new s d y by simp
qed

text \<open>
  C7. In the runge_kutta scheme, \<open>solve_step\<close> with a stage index outside 0, 1, 2, 3
  leaves the whole object, and so the states, the snapshot and the stored increments,
  as it was; on a ready machine it returns normally.
\<close>

theorem runge_kutta_invalid_stage:
  assumes "opt m = ''runge_kutta''" and "dstep \<notin> {0, 1, 2, 3}"
  shows "snd (solve_step h dstep m) = m \<and> (ready m \<longrightarrow> fst (solve_step h dstep m) = Inr ())"
proof -
  obtain r m1 where c: "calc_increments h m = (r, m1)" by (cases "calc_increments h m")
  have "m1 = m" using calc_increments_pure [of h m] c by simp
  then have "snd (solve_step h dstep m) = m"
    using assms c
    by (cases r) (simp_all add: solve_step_def py_bind_def runge_kutta_def py_return_def)
  then show ?thesis
    using assms by (simp add: rk_other_stage)
qed

theorem runge_kutta_invalid_stage_witness:
  "opt (example ''runge_kutta'') = ''runge_kutta'' \<and> (4::int) \<notin> {0, 1, 2, 3} \<and>
   ready (example ''runge_kutta'') \<and>
   snd (solve_step (7/100) 4 (example ''runge_kutta'')) = example ''runge_kutta'' \<and>
   fst (solve_step (7/100) 4 (example ''runge_kutta'')) = Inr ()"
  using runge_kutta_invalid_stage [of "example ''runge_kutta''" 4 "7/100"]
  by (simp add: example_fields)

text \<open>Stage 3 assigns to \<open>states\<close> only.\<close>

lemma unchanged_combine:
  "(\<And>self x. fld (self\<lparr>states := (states self)(v \<mapsto> x)\<rparr>) = fld self) \<Longrightarrow>
   unchanged fld (combine v k)"
  unfolding combine_def
  by (intro unchanged_bind unchanged_read unchanged_get_dstep unchanged_write)

lemma rk_stage3_dsteps:
  assumes "opt m = ''runge_kutta''" and "ready m"
  shows "dsteps (snd (solve_step h 3 m)) = dsteps m"
proof -
  have "unchanged dsteps (runge_kutta 3 i)" for i
    unfolding runge_kutta_def
    by (simp add: unchanged_then unchanged_combine)
  then show ?thesis
    using assms by (simp add: solve_step_ready unchanged_def Let_def)
qed

text \<open>
  C8. The claim has every stage append its increment, so that stage 3 would leave four
  stored derivatives. Stage 3 does not append: after the four stages of the example each
  list holds three increments.
\<close>

theorem runge_kutta_stage3_appends_counterexample:
  "fst (solve_step (7/100) 3 example_rk3) = Inr () \<and>
   dsteps example_rk4 ''Eqp'' = Some [1/100, 199/20000, 39601/4000000] \<and>
   length (val (dsteps example_rk4) ''Eqp'') \<noteq> 4"
proof -
  have "fst (solve_step (7/100) 3 example_rk3) = Inr ()"
    by (simp add: example_rk3_eq run_defs example_defs)
  then show ?thesis by (simp add: example_rk4_eq val_def)
qed

text \<open>
  C8, amended. In the runge_kutta scheme, on a ready machine, stage 0 resets the list of
  each variable to its increment \<open>[k1]\<close>, stages 1 and 2 append their increment to the
  list they find, so that after stage \<open>s \<le> 2\<close> the list holds \<open>k1\<close> to \<open>k(s+1)\<close> in
  order, and stage 3 leaves the lists as they are, with three stored derivatives.
\<close>

theorem runge_kutta_stored_increments:
  assumes "opt m = ''runge_kutta''" and "ready m"
  shows "(\<forall>v \<in> set variables. dsteps (snd (solve_step h 0 m)) v = Some [h * rhs m v]) \<and>
    ((dstep = 1 \<or> dstep = 2) \<and> (\<forall>v \<in> set variables. dsteps m v = Some (d v)) \<longrightarrow>
       (\<forall>v \<in> set variables. dsteps (snd (solve_step h dstep m)) v = Some (d v @ [h * rhs m v]))) \<and>
    dsteps (snd (solve_step h 3 m)) = dsteps m"
proof (intro conjI impI)
  show "\<forall>v \<in> set variables. dsteps (snd (solve_step h 0 m)) v = Some [h * rhs m v]"
    by (simp add: rk_stage0 [OF assms] variables_def)
  show "dsteps (snd (solve_step h 3 m)) = dsteps m"
    by (rule rk_stage3_dsteps [OF assms])
next
  assume a: "(dstep = 1 \<or> dstep = 2) \<and> (\<forall>v \<in> set variables. dsteps m v = Some (d v))"
  then have s: "dstep = 1 \<or> dstep = 2" and l: "\<forall>v \<in> set variables. dsteps m v = Some (d v)"
    by simp_all
  show "\<forall>v \<in> set variables. dsteps (snd (solve_step h dstep m)) v = Some (d v @ [h * rhs m v])"
    by (simp add: rk_stage12 [OF assms s l] variables_def)
qed

theorem runge_kutta_stored_increments_witness:
  "opt example_rk2 = ''runge_kutta'' \<and> ready example_rk2 \<and>
   dsteps example_rk2 ''Eqp'' = Some [1/100, 199/20000] \<and>
   7/100 * rhs example_rk2 ''Eqp'' = 39601/4000000 \<and>
   dsteps (snd (solve_step (7/100) 0 example_rk2)) ''Eqp'' = Some [39601/4000000] \<and>
   dsteps (snd (solve_step (7/100) 2 example_rk2)) ''Eqp'' = Some [1/100, 199/20000, 39601/4000000] \<and>
   dsteps (snd (solve_step (7/100) 3 example_rk2)) = dsteps example_rk2"
  using runge_kutta_stored_increments [of example_rk2 "7/100" 2 "val (dsteps example_rk2)"]
  by (simp add: example_rk2_eq example_defs variables_def val_def ready_def residuals_ready_def
      rhs_def)

text \<open>
  C9. \<open>calc_currents\<close> called again with the same voltage on the object it has just left
  returns the same outcome and leaves the object as it is; and on two objects with the
  same states, parameters and \<open>Yg\<close>, whatever else they hold, it has the same outcome
  and, when it returns, stores the same values in the seven signals it writes.
\<close>

theorem calc_currents_pure:
  "calc_currents vt (snd (calc_currents vt m)) = calc_currents vt m \<and>
   (states m' = states m \<and> params m' = params m \<and> Yg m' = Yg m \<longrightarrow>
      fst (calc_currents vt m') = fst (calc_currents vt m) \<and>
      (\<forall>k \<in> {''Id'', ''Iq'', ''Vd'', ''Vq'', ''P'', ''Q'', ''Vt''}.
         (\<exists>im. fst (calc_currents vt m) = Inr im) \<longrightarrow>
         signals (snd (calc_currents vt m')) k = signals (snd (calc_currents vt m)) k))"
  using calc_currents_idem [of vt m] calc_currents_determined [of m' m vt]
    calc_currents_written [of m' m vt]
  by blast

theorem calc_currents_pure_witness:
  "states example_rk4 \<noteq> states (example ''runge_kutta'') \<and>
   states example_quiet = states (example ''mod_euler'') \<and>
   params example_quiet = params (example ''mod_euler'') \<and>
   Yg example_quiet = Yg (example ''mod_euler'') \<and>
   signals example_quiet \<noteq> signals (example ''mod_euler'') \<and>
   fst (calc_currents \<i> example_quiet) = fst (calc_currents \<i> (example ''mod_euler'')) \<and>
   fst (calc_currents \<i> (example ''mod_euler'')) = Inr (- 2 - \<i> * (10 / 3) + (- \<i> * (8 / 3)) * \<i>) \<and>
   signals (snd (calc_currents \<i> example_quiet)) ''P''
     = signals (snd (calc_currents \<i> (example ''mod_euler''))) ''P'' \<and>
   calc_currents \<i> (snd (calc_currents \<i> (example ''mod_euler'')))
     = calc_currents \<i> (example ''mod_euler'')"
proof -
  have r: "fst (calc_currents \<i> (example ''mod_euler'')) = Inr (- 2 - \<i> * (10 / 3) + (- \<i> * (8 / 3)) * \<i>)"
    by (simp add: calc_currents_def Let_def run_defs example_defs)
  have s: "states example_quiet = states (example ''mod_euler'')"
    "params example_quiet = params (example ''mod_euler'')"
    "Yg example_quiet = Yg (example ''mod_euler'')"
    by (simp_all add: example_defs)
  have n: "signals example_quiet \<noteq> signals (example ''mod_euler'')"
  proof
    assume "signals example_quiet = signals (example ''mod_euler'')"
    then have "signals example_quiet ''Iq'' = signals (example ''mod_euler'') ''Iq''" by simp
    then show False by (simp add: example_defs)
  qed
  have n4: "states example_rk4 \<noteq> states (example ''runge_kutta'')"
  proof
    assume "states example_rk4 = states (example ''runge_kutta'')"
    then have "states example_rk4 ''omega'' = states (example ''runge_kutta'') ''omega''" by simp
    then show False by (simp add: example_rk4_eq example_defs)
  qed
  show ?thesis
    using calc_currents_pure [of \<i> "example ''mod_euler''" example_quiet] r s n n4 by simp
qed

text \<open>
  C10. For every scheme and every stage index, whether \<open>solve_step\<close> returns or raises,
  the signals and the parameters (and \<open>Yg\<close>, \<open>opt\<close>, \<open>omega_n\<close>) are as before, and so is
  every entry of \<open>states\<close>, \<open>states0\<close> and \<open>dsteps\<close> under a key that is not one of the
  four state variables.
\<close>

theorem solve_step_frame:
  "signals (snd (solve_step h dstep m)) = signals m \<and>
   params (snd (solve_step h dstep m)) = params m \<and>
   Yg (snd (solve_step h dstep m)) = Yg m \<and>
   opt (snd (solve_step h dstep m)) = opt m \<and>
   omega_n (snd (solve_step h dstep m)) = omega_n m \<and>
   (k \<notin> set variables \<longrightarrow>
      states (snd (solve_step h dstep m)) k = states m k \<and>
      states0 (snd (solve_step h dstep m)) k = states0 m k \<and>
      dsteps (snd (solve_step h dstep m)) k = dsteps m k)"
proof -
  have "unchanged signals (solve_step h dstep)" "unchanged params (solve_step h dstep)"
    "unchanged Yg (solve_step h dstep)" "unchanged opt (solve_step h dstep)"
    "unchanged omega_n (solve_step h dstep)"
    by (rule unchanged_solve_step; simp)+
  moreover have "unchanged (\<lambda>self. states self k) (solve_step h dstep)"
    "unchanged (\<lambda>self. states0 self k) (solve_step h dstep)"
    "unchanged (\<lambda>self. dsteps self k) (solve_step h dstep)" if "k \<notin> set variables"
    using that by (auto intro!: unchanged_solve_step)
  ultimately show ?thesis by (simp add: unchanged_def)
qed

theorem solve_step_frame_witness:
  "''Pm'' \<notin> set variables \<and>
   signals (snd (solve_step (7/100) 1 example_me1)) = signals example_me1 \<and>
   params (snd (solve_step (7/100) 1 example_me1)) = params example_me1 \<and>
   states (snd (solve_step (7/100) 1 example_me1)) ''Pm'' = states example_me1 ''Pm'' \<and>
   states (snd (solve_step (7/100) 1 example_me1)) ''Eqp'' \<noteq> states example_me1 ''Eqp''"
proof -
  have "states (snd (solve_step (7/100) 1 example_me1)) ''Eqp'' \<noteq> states example_me1 ''Eqp''"
    by (simp add: example_me1_eq run_defs example_defs)
  then show ?thesis
    using solve_step_frame [of "7/100" 1 example_me1 "''Pm''"] by (simp add: variables_def)
qed

end
